theory Spec2Isabelle
  imports Main
begin

unbundle bit_operations_syntax

section \<open>The socket core of \<open>ext/socket/socket.c\<close>\<close>

text \<open>
  A shallow embedding of the functions of \<open>socket.c\<close>: the address codec
  (\<open>pack_sockaddr_un\<close>, \<open>unpack_sockaddr_un\<close>, \<open>unpack_sockaddr_in\<close>,
  \<open>sock_sockaddr\<close>), the socket lifecycle calls (\<open>socketpair\<close>, \<open>connect\<close>,
  \<open>connect_nonblock\<close>, \<open>bind\<close>, \<open>listen\<close>, \<open>accept\<close>) and the name resolution bridge
  (\<open>gethostbyaddr\<close>, \<open>getservbyname\<close>, \<open>getservbyport\<close>, \<open>getnameinfo\<close>).

  A C \<open>char\<close> buffer is a \<open>string\<close> (a list of bytes). A Ruby exception is a value of
  type \<open>exn\<close>, and a function that can raise returns \<open>exn + 'a\<close> with \<open>Inl\<close> the
  exception. The operating system and the resolver library are parameters of the
  functions that call them. A helper that is defined in another file of the extension
  is a parameter too, or a definition marked as modelled from the spec. The taint marks
  (\<open>OBJ_INFECT\<close>) and the safe-level checks (\<open>rb_secure\<close>) of the interpreter are left
  out.
\<close>

subsection \<open>Exceptions\<close>

datatype exn =
    ArgError string            \<comment> \<open>\<open>rb_raise(rb_eArgError, msg)\<close>\<close>
  | TypeError string           \<comment> \<open>\<open>rb_raise(rb_eTypeError, msg)\<close>\<close>
  | RangeError string          \<comment> \<open>\<open>rb_raise(rb_eRangeError, msg)\<close>\<close>
  | SocketError string         \<comment> \<open>\<open>rb_raise(rb_eSocket, msg)\<close>\<close>
  | SystemCallError string int \<comment> \<open>\<open>rb_sys_fail(name)\<close> with the value of \<open>errno\<close>\<close>
  | ResolutionError string int \<comment> \<open>\<open>raise_socket_error(name, code)\<close>\<close>
  | IOError string             \<comment> \<open>\<open>GetOpenFile\<close> on a closed stream\<close>
  | NotImplementedError        \<comment> \<open>\<open>rb_notimplement()\<close>\<close>
  | OutOfBoundsRead            \<comment> \<open>a read past the end of the buffer (undefined in C)\<close>

subsection \<open>The platform\<close>

text \<open>
  The constants and structure layouts that \<open>socket.c\<close> takes from the system headers
  and from the build configuration. They are parameters of the model; \<open>linux\<close> below
  is the x86-64 Linux instance.
\<close>

record platform =
  little_endian :: bool        \<comment> \<open>host byte order\<close>
  INET6 :: bool                \<comment> \<open>\<open>#ifdef INET6\<close>\<close>
  HAVE_SOCKETPAIR :: bool      \<comment> \<open>\<open>#if defined HAVE_SOCKETPAIR\<close>\<close>
  sa_family_offset :: nat      \<comment> \<open>\<open>offsetof(struct sockaddr, sa_family)\<close>\<close>
  sa_family_size :: nat        \<comment> \<open>\<open>sizeof(sa_family)\<close>\<close>
  AF_INET :: nat
  AF_INET6 :: nat
  AF_UNIX :: nat
  sun_path_offset :: nat       \<comment> \<open>\<open>offsetof(struct sockaddr_un, sun_path)\<close>\<close>
  sun_path_size :: nat         \<comment> \<open>\<open>sizeof(sockaddr.sun_path)\<close>\<close>
  sizeof_sockaddr_un :: nat    \<comment> \<open>\<open>sizeof(struct sockaddr_un)\<close>\<close>
  sizeof_sockaddr_storage :: nat
  LONG_BITS :: nat             \<comment> \<open>width of \<open>long\<close> and \<open>unsigned long\<close>\<close>
  EMFILE :: int
  ENFILE :: int
  EINPROGRESS :: int
  PF_UNSPEC :: int
  SOCK_STREAM :: int
  SOCK_DGRAM :: int
  NI_DGRAM :: int
  AI_NUMERICHOST :: "int option" \<comment> \<open>\<open>None\<close> where the macro is not defined\<close>

definition linux :: platform where
  "linux = \<lparr> little_endian = True, INET6 = True, HAVE_SOCKETPAIR = True,
     sa_family_offset = 0, sa_family_size = 2,
     AF_INET = 2, AF_INET6 = 10, AF_UNIX = 1,
     sun_path_offset = 2, sun_path_size = 108, sizeof_sockaddr_un = 110,
     sizeof_sockaddr_storage = 128, LONG_BITS = 64,
     EMFILE = 24, ENFILE = 23, EINPROGRESS = 115,
     PF_UNSPEC = 0, SOCK_STREAM = 1, SOCK_DGRAM = 2, NI_DGRAM = 16,
     AI_NUMERICHOST = Some 4 \<rparr>"

text \<open>
  What every C implementation guarantees of the layout: the family tag fits its field
  and lies before \<open>sun_path\<close>, \<open>sun_path\<close> is not empty and lies inside the structure.
\<close>

definition platform_ok :: "platform \<Rightarrow> bool" where
  "platform_ok pf =
     (0 < sa_family_size pf \<and>
      sa_family_offset pf + sa_family_size pf \<le> sun_path_offset pf \<and>
      0 < sun_path_size pf \<and>
      sun_path_offset pf + sun_path_size pf \<le> sizeof_sockaddr_un pf \<and>
      AF_UNIX pf < 256 ^ sa_family_size pf)"

subsection \<open>Bytes, integers in memory, C strings\<close>

abbreviation NUL :: char where
  "NUL \<equiv> CHR 0x00"

fun le_nat :: "string \<Rightarrow> nat" where
  "le_nat [] = 0"
| "le_nat (c # cs) = of_char c + 256 * le_nat cs"

fun le_bytes :: "nat \<Rightarrow> nat \<Rightarrow> string" where
  "le_bytes 0 n = []"
| "le_bytes (Suc k) n = char_of (n mod 256) # le_bytes k (n div 256)"

text \<open>An unsigned integer field of \<open>sz\<close> bytes at offset \<open>off\<close>, in host byte order.\<close>

definition load_uint :: "platform \<Rightarrow> string \<Rightarrow> nat \<Rightarrow> nat \<Rightarrow> nat" where
  "load_uint pf mem off sz =
     (let bs = take sz (drop off mem)
      in if little_endian pf then le_nat bs else le_nat (rev bs))"

definition uint_bytes :: "platform \<Rightarrow> nat \<Rightarrow> nat \<Rightarrow> string" where
  "uint_bytes pf sz v =
     (if little_endian pf then le_bytes sz v else rev (le_bytes sz v))"

text \<open>\<open>memcpy(buf + off, src, length src)\<close>, for a source that fits the buffer.\<close>

definition mem_write :: "string \<Rightarrow> nat \<Rightarrow> string \<Rightarrow> string" where
  "mem_write buf off src = take off buf @ src @ drop (off + length src) buf"

text \<open>The C string that starts at the head of \<open>mem\<close>: the bytes before the first NUL.\<close>

definition c_string :: "string \<Rightarrow> string" where
  "c_string mem = takeWhile (\<lambda>c. c \<noteq> NUL) mem"

text \<open>
  The memory of a Ruby string: its \<open>RSTRING_LEN\<close> bytes, followed by the NUL byte the
  interpreter keeps after the contents of every string.
\<close>

definition RSTRING_mem :: "string \<Rightarrow> string" where
  "RSTRING_mem s = s @ [NUL]"

text \<open>Decimal output of \<open>printf\<close>'s \<open>%d\<close> and \<open>%ld\<close>.\<close>

fun show_nat :: "nat \<Rightarrow> string" where
  "show_nat n =
     (if n < 10 then [''0123456789'' ! n]
      else show_nat (n div 10) @ [''0123456789'' ! (n mod 10)])"

declare show_nat.simps [simp del]

definition show_int :: "int \<Rightarrow> string" where
  "show_int i = (if i < 0 then CHR ''-'' # show_nat (nat (- i)) else show_nat (nat i))"

subsection \<open>Address codec\<close>

text \<open>
  \<open>((struct sockaddr *)sockaddr)->sa_family\<close>. The field \<open>sun_family\<close> of a
  \<open>sockaddr_un\<close> is the same bytes.
\<close>

definition sa_family :: "platform \<Rightarrow> string \<Rightarrow> nat" where
  "sa_family pf addr = load_uint pf addr (sa_family_offset pf) (sa_family_size pf)"

text \<open>
  The bound of the first check of both decoders:
  \<open>(char*)&sa->sa_family + sizeof(sa->sa_family) - (char*)sa\<close>.
\<close>

definition family_tag_end :: "platform \<Rightarrow> nat" where
  "family_tag_end pf = sa_family_offset pf + sa_family_size pf"

text \<open>
  \<open>sock_s_unpack_sockaddr_in\<close>. \<open>make_ipaddr\<close> is defined outside \<open>socket.c\<close> and is a
  parameter. \<open>sin_port\<close> is the two bytes at offset 2, in network byte order; the
  function does not check that the memory of the string holds them, and the model
  gives \<open>OutOfBoundsRead\<close> when it does not.
\<close>

definition sock_s_unpack_sockaddr_in ::
    "platform \<Rightarrow> (string \<Rightarrow> exn + string) \<Rightarrow> string \<Rightarrow> exn + (nat \<times> string)" where
  "sock_s_unpack_sockaddr_in pf make_ipaddr addr =
     (if length addr < family_tag_end pf then Inl (ArgError ''too short sockaddr'')
      else if (if INET6 pf
               then sa_family pf addr \<noteq> AF_INET pf \<and> sa_family pf addr \<noteq> AF_INET6 pf
               else sa_family pf addr \<noteq> AF_INET pf)
      then Inl (ArgError (if INET6 pf then ''not an AF_INET/AF_INET6 sockaddr''
                          else ''not an AF_INET sockaddr''))
      else (case make_ipaddr addr of
              Inl e \<Rightarrow> Inl e
            | Inr host \<Rightarrow>
                if length (RSTRING_mem addr) < 4 then Inl OutOfBoundsRead
                else Inr (le_nat (rev (take 2 (drop 2 (RSTRING_mem addr)))), host)))"

text \<open>
  A \<open>const char *\<close> that \<open>unixpath\<close> can return: a pointer into the buffer of \<open>addr\<close>, at
  an offset, or a pointer to a string literal.
\<close>

datatype cptr = Ptr_addr nat | Ptr_literal string

text \<open>
  Modelled from the spec: \<open>unixpath\<close> is defined outside \<open>socket.c\<close>. The path of a
  decoded address is the \<open>sun_path\<close> field, so \<open>unixpath\<close> returns a pointer to the
  start of the field when the buffer reaches it, and the empty string otherwise.
\<close>

definition unixpath :: "platform \<Rightarrow> nat \<Rightarrow> cptr" where
  "unixpath pf len =
     (if sun_path_offset pf < len then Ptr_addr (sun_path_offset pf) else Ptr_literal [])"

text \<open>The C string at a pointer (\<open>rb_str_new2\<close>), and \<open>p + strlen(p)\<close> as an offset.\<close>

definition deref :: "string \<Rightarrow> cptr \<Rightarrow> string" where
  "deref addr p =
     (case p of
        Ptr_addr off \<Rightarrow> c_string (drop off (RSTRING_mem addr))
      | Ptr_literal s \<Rightarrow> c_string s)"

definition ends_at_buffer_end :: "string \<Rightarrow> cptr \<Rightarrow> bool" where
  "ends_at_buffer_end addr p =
     (case p of
        Ptr_addr off \<Rightarrow> off + length (deref addr p) = length addr
      | Ptr_literal s \<Rightarrow> False)"

definition sock_s_unpack_sockaddr_un :: "platform \<Rightarrow> string \<Rightarrow> exn + string" where
  "sock_s_unpack_sockaddr_un pf addr =
     (if length addr < family_tag_end pf then Inl (ArgError ''too short sockaddr'')
      else if sa_family pf addr \<noteq> AF_UNIX pf then Inl (ArgError ''not an AF_UNIX sockaddr'')
      else if sizeof_sockaddr_un pf < length addr
      then Inl (TypeError (''too long sockaddr_un - '' @ show_nat (length addr) @
                           '' longer than '' @ show_nat (sizeof_sockaddr_un pf)))
      else (let sun_path = unixpath pf (length addr)
            in if sizeof_sockaddr_un pf = length addr \<and>
                  sun_path = Ptr_addr (sun_path_offset pf) \<and>
                  ends_at_buffer_end addr sun_path
               then Inl (ArgError ''sockaddr_un.sun_path not NUL terminated'')
               else Inr (deref addr sun_path)))"

text \<open>
  \<open>sock_sockaddr\<close>: the raw address bytes of a resolver result. \<open>sin_addr\<close> is the four
  bytes at offset 4 of a \<open>sockaddr_in\<close>, \<open>sin6_addr\<close> the sixteen bytes at offset 8 of a
  \<open>sockaddr_in6\<close>.
\<close>

definition sock_sockaddr :: "platform \<Rightarrow> string \<Rightarrow> exn + string" where
  "sock_sockaddr pf addr =
     (if sa_family pf addr = AF_INET pf then Inr (take 4 (drop 4 addr))
      else if INET6 pf \<and> sa_family pf addr = AF_INET6 pf then Inr (take 16 (drop 8 addr))
      else Inl (SocketError (''unknown socket family:'' @ show_nat (sa_family pf addr))))"

text \<open>
  \<open>StringValueCStr\<close> of the interpreter: the bytes of the string as a C string, or an
  argument error when the string holds a NUL byte.
\<close>

definition StringValueCStr :: "string \<Rightarrow> exn + string" where
  "StringValueCStr s =
     (if NUL \<in> set s then Inl (ArgError ''string contains null byte'') else Inr s)"

definition strlen :: "string \<Rightarrow> nat" where
  "strlen s = length (c_string s)"

text \<open>The \<open>n\<close> bytes that \<open>strncpy(dst, src, n)\<close> writes: the C string, then NUL padding.\<close>

definition strncpy :: "string \<Rightarrow> nat \<Rightarrow> string" where
  "strncpy src n = take n (c_string src) @ replicate (n - length (c_string src)) NUL"

definition sock_s_pack_sockaddr_un :: "platform \<Rightarrow> string \<Rightarrow> exn + string" where
  "sock_s_pack_sockaddr_un pf path =
     (let zeroed = replicate (sizeof_sockaddr_un pf) NUL;
          tagged = mem_write zeroed (sa_family_offset pf)
                     (uint_bytes pf (sa_family_size pf) (AF_UNIX pf))
      in case StringValueCStr path of
           Inl e \<Rightarrow> Inl e
         | Inr sun_path \<Rightarrow>
             if sun_path_size pf \<le> strlen sun_path
             then Inl (ArgError (''too long unix socket path (max: '' @
                                 show_int (int (sun_path_size pf) - 1) @ ''bytes)''))
             else Inr (mem_write tagged (sun_path_offset pf)
                         (strncpy sun_path (sun_path_size pf - 1))))"

subsection \<open>Values of the interpreter\<close>

text \<open>
  The Ruby values that \<open>socket.c\<close> tells apart (\<open>NIL_P\<close>, \<open>FIXNUM_P\<close>,
  \<open>rb_check_string_type\<close>, \<open>rb_check_array_type\<close>). Where the C code converts an
  argument without looking at its shape (\<open>StringValue\<close>, \<open>NUM2INT\<close>), the model takes
  the converted value: a \<open>string\<close> or an \<open>int\<close>, and an \<open>option\<close> where \<open>nil\<close> is tested.
\<close>

datatype VALUE = Qnil | Fixnum int | RString string | RSymbol string | RArray "VALUE list"

text \<open>
  \<open>NUM2LONG\<close> of the interpreter on an Integer: the value as a C \<open>long\<close>, or a range
  error when it does not fit.
\<close>

definition NUM2LONG :: "platform \<Rightarrow> int \<Rightarrow> exn + int" where
  "NUM2LONG pf v =
     (if - (2 ^ (LONG_BITS pf - 1)) \<le> v \<and> v < 2 ^ (LONG_BITS pf - 1) then Inr v
      else Inl (RangeError (''bignum too big to convert into '' @ [CHR 0x60] @ ''long'' @
                            [CHR 0x27])))"

text \<open>\<open>StringValuePtr\<close> of the interpreter: the bytes of a String, a type error otherwise.\<close>

definition StringValuePtr :: "VALUE \<Rightarrow> exn + string" where
  "StringValuePtr v =
     (case v of RString s \<Rightarrow> Inr s | _ \<Rightarrow> Inl (TypeError ''can not convert into String''))"

subsection \<open>Byte order\<close>

definition swap16 :: "nat \<Rightarrow> nat" where
  "swap16 x = (x mod 256) * 256 + (x div 256) mod 256"

definition htons :: "platform \<Rightarrow> nat \<Rightarrow> nat" where
  "htons pf x = (if little_endian pf then swap16 x else x mod 65536)"

definition ntohs :: "platform \<Rightarrow> nat \<Rightarrow> nat" where
  "ntohs pf x = (if little_endian pf then swap16 x else x mod 65536)"

subsection \<open>Service database\<close>

record servent =
  s_name :: string
  s_port :: nat   \<comment> \<open>the port, in network byte order\<close>

text \<open>The character \<open>*p\<close> at an offset into a C string: the NUL terminator at its end.\<close>

definition c_at :: "string \<Rightarrow> nat \<Rightarrow> char" where
  "c_at s i = (if i < length s then s ! i else NUL)"

text \<open>\<open>int port = v\<close> for an \<open>unsigned long v\<close>: the low 32 bits, read as two's complement.\<close>

definition ulong_to_int :: "nat \<Rightarrow> int" where
  "ulong_to_int v =
     (let w = int (v mod 2 ^ 32) in if w < 2 ^ 31 then w else w - 2 ^ 32)"

text \<open>
  \<open>rb_scan_args(argc, argv, "11", ...)\<close> leaves the optional argument \<open>nil\<close> when it is
  not given; \<open>protoname\<close> is then the literal \<open>"tcp"\<close>.
\<close>

definition protoname_of :: "string option \<Rightarrow> exn + string" where
  "protoname_of proto = (case proto of None \<Rightarrow> Inr ''tcp'' | Some p \<Rightarrow> StringValueCStr p)"

text \<open>
  \<open>sock_s_getservbyname\<close>. The macro \<open>STRTOUL\<close> and the database function
  \<open>getservbyname(3)\<close> are parameters: \<open>STRTOUL s base\<close> returns the value and the offset
  of \<open>end\<close> in \<open>s\<close>.
\<close>

definition sock_s_getservbyname ::
    "platform \<Rightarrow> (string \<Rightarrow> nat \<Rightarrow> nat \<times> nat) \<Rightarrow> (string \<Rightarrow> string \<Rightarrow> servent option) \<Rightarrow>
     string \<Rightarrow> string option \<Rightarrow> exn + int" where
  "sock_s_getservbyname pf STRTOUL getservbyname service proto =
     (case StringValueCStr service of
        Inl e \<Rightarrow> Inl e
      | Inr servicename \<Rightarrow>
          (case protoname_of proto of
             Inl e \<Rightarrow> Inl e
           | Inr protoname \<Rightarrow>
               (case getservbyname servicename protoname of
                  Some sp \<Rightarrow> Inr (int (ntohs pf (s_port sp)))
                | None \<Rightarrow>
                    (let (v, endp) = STRTOUL servicename 0
                     in if c_at servicename endp \<noteq> NUL
                        then Inl (SocketError (''no such service '' @ servicename @ ''/'' @
                                               protoname))
                        else Inr (ulong_to_int v)))))"

text \<open>
  \<open>sock_s_getservbyport\<close>. The second component of the result lists the calls of
  \<open>getservbyport(3)\<close> that were made, with their arguments.
\<close>

definition sock_s_getservbyport ::
    "platform \<Rightarrow> (nat \<Rightarrow> string \<Rightarrow> servent option) \<Rightarrow> int \<Rightarrow> string option \<Rightarrow>
     (exn + string) \<times> (nat \<times> string) list" where
  "sock_s_getservbyport pf getservbyport port proto =
     (case NUM2LONG pf port of
        Inl e \<Rightarrow> (Inl e, [])
      | Inr portnum \<Rightarrow>
          if portnum \<noteq> portnum mod 65536
          then (Inl (RangeError (''integer '' @ show_int portnum @ '' too '' @
                                 (if portnum > 0 then ''big'' else ''small'') @
                                 '' to convert into '' @ [CHR 0x60] @ ''int16_t'' @
                                 [CHR 0x27])), [])
          else (case protoname_of proto of
                  Inl e \<Rightarrow> (Inl e, [])
                | Inr protoname \<Rightarrow>
                    (let arg = htons pf (nat (portnum mod 65536))
                     in case getservbyport arg protoname of
                          None \<Rightarrow>
                            (Inl (SocketError (''no such service for port '' @
                                               show_int portnum @ ''/'' @ protoname)),
                             [(arg, protoname)])
                        | Some sp \<Rightarrow> (Inr (s_name sp), [(arg, protoname)]))))"

subsection \<open>The C library's \<open>strtoul\<close>\<close>

text \<open>
  \<open>strtoul(3)\<close> as ISO C specifies it, the function the macro \<open>STRTOUL\<close> stands for:
  white space, an optional sign, with base 0 an optional \<open>0x\<close> (hexadecimal) or a
  leading \<open>0\<close> (octal), then the digits of the base. On overflow the value is
  \<open>ULONG_MAX\<close>. When no digit is converted the value is 0 and \<open>end\<close> is the start of the
  string.
\<close>

definition isspace :: "char \<Rightarrow> bool" where
  "isspace c = (c \<in> set [CHR '' '', CHR 0x09, CHR 0x0A, CHR 0x0B, CHR 0x0C, CHR 0x0D])"

definition digit_value :: "char \<Rightarrow> nat option" where
  "digit_value c =
     (let n = (of_char c :: nat)
      in if 48 \<le> n \<and> n \<le> 57 then Some (n - 48)
         else if 97 \<le> n \<and> n \<le> 122 then Some (n - 87)
         else if 65 \<le> n \<and> n \<le> 90 then Some (n - 55)
         else None)"

text \<open>The digit loop: the value so far, whether it overflowed, the digits consumed.\<close>

fun strtoul_digits :: "nat \<Rightarrow> nat \<Rightarrow> string \<Rightarrow> nat \<Rightarrow> bool \<Rightarrow> nat \<Rightarrow> nat \<times> bool \<times> nat" where
  "strtoul_digits base ulong_max [] acc ovf k = (acc, ovf, k)"
| "strtoul_digits base ulong_max (c # cs) acc ovf k =
     (case digit_value c of
        None \<Rightarrow> (acc, ovf, k)
      | Some d \<Rightarrow>
          if base \<le> d then (acc, ovf, k)
          else if ovf \<or> ulong_max < acc * base + d
          then strtoul_digits base ulong_max cs ulong_max True (Suc k)
          else strtoul_digits base ulong_max cs (acc * base + d) False (Suc k))"

text \<open>The radix that is used, and the length of the prefix that is skipped.\<close>

fun strtoul_radix :: "nat \<Rightarrow> string \<Rightarrow> nat \<times> nat" where
  "strtoul_radix base (z # x # c # cs) =
     (if (base = 0 \<or> base = 16) \<and> z = CHR ''0'' \<and> (x = CHR ''x'' \<or> x = CHR ''X'') \<and>
         (case digit_value c of None \<Rightarrow> False | Some d \<Rightarrow> d < 16)
      then (16, 2)
      else if base = 0 then (if z = CHR ''0'' then 8 else 10, 0)
      else (base, 0))"
| "strtoul_radix base s =
     (if base = 0 then (if s \<noteq> [] \<and> hd s = CHR ''0'' then 8 else 10, 0) else (base, 0))"

definition c_strtoul :: "platform \<Rightarrow> string \<Rightarrow> nat \<Rightarrow> nat \<times> nat" where
  "c_strtoul pf s base =
     (let ws = length (takeWhile isspace s);
          s1 = drop ws s;
          neg = (s1 \<noteq> [] \<and> hd s1 = CHR ''-'');
          sg = (if s1 \<noteq> [] \<and> (hd s1 = CHR ''-'' \<or> hd s1 = CHR ''+'') then 1 else 0);
          s2 = drop sg s1;
          (radix, pre) = strtoul_radix base s2;
          ulong_max = 2 ^ LONG_BITS pf - 1;
          (acc, ovf, k) = strtoul_digits radix ulong_max (drop pre s2) 0 False 0
      in if k = 0 then (0, 0)
         else (if neg \<and> \<not> ovf then (2 ^ LONG_BITS pf - acc) mod 2 ^ LONG_BITS pf else acc,
               ws + sg + pre + k))"

subsection \<open>Host lookup by address\<close>

record hostent =
  h_name :: string
  h_aliases :: "string list"
  h_addrtype :: int
  h_length :: nat
  h_addr_list :: "string list"

text \<open>
  \<open>sock_s_gethostbyaddr\<close>. \<open>family_arg\<close> (defined outside \<open>socket.c\<close>) and the library
  function \<open>gethostbyaddr(3)\<close> are parameters; the library function returns the host
  entry, or \<open>h_errno\<close> when the pointer it returns is \<open>NULL\<close>. \<open>hstrerror\<close> is \<open>None\<close> where
  \<open>HAVE_HSTRERROR\<close> is not defined. The address list is the one of a platform that
  defines \<open>h_addr\<close>. The second component of the result lists the calls of
  \<open>gethostbyaddr(3)\<close> that were made: the address, its length and the family.
\<close>

definition sock_s_gethostbyaddr ::
    "platform \<Rightarrow> (VALUE \<Rightarrow> exn + int) \<Rightarrow> (string \<Rightarrow> nat \<Rightarrow> int \<Rightarrow> int + hostent) \<Rightarrow>
     (int \<Rightarrow> string) option \<Rightarrow> string \<Rightarrow> VALUE \<Rightarrow>
     (exn + VALUE) \<times> (string \<times> nat \<times> int) list" where
  "sock_s_gethostbyaddr pf family_arg gethostbyaddr hstrerror addr family =
     (case (if family \<noteq> Qnil then family_arg family
            else if INET6 pf \<and> length addr = 16 then Inr (int (AF_INET6 pf))
            else Inr (int (AF_INET pf))) of
        Inl e \<Rightarrow> (Inl e, [])
      | Inr t \<Rightarrow>
          (case gethostbyaddr addr (length addr) t of
             Inl h_errno \<Rightarrow>
               (Inl (SocketError (case hstrerror of
                                    Some msg \<Rightarrow> msg h_errno
                                  | None \<Rightarrow> ''host not found'')),
                [(addr, length addr, t)])
           | Inr h \<Rightarrow>
               (Inr (RArray ([RString (h_name h), RArray (map RString (h_aliases h)),
                              Fixnum (h_addrtype h)] @
                             map (\<lambda>a. RString (take (h_length h) a)) (h_addr_list h))),
                [(addr, length addr, t)])))"

subsection \<open>Decimal literals\<close>

text \<open>
  What "a literal decimal port number" means, for stating the fallback of
  \<open>getservbyname\<close>: a string of the digits 0 to 9, and the number it denotes.
\<close>

definition decimal_digit :: "char \<Rightarrow> bool" where
  "decimal_digit c = (48 \<le> (of_char c :: nat) \<and> (of_char c :: nat) \<le> 57)"

fun decimal_from :: "nat \<Rightarrow> string \<Rightarrow> nat" where
  "decimal_from acc [] = acc"
| "decimal_from acc (c # cs) = decimal_from (acc * 10 + (of_char c - 48)) cs"

definition decimal_value :: "string \<Rightarrow> nat" where
  "decimal_value s = decimal_from 0 s"

subsection \<open>Socket lifecycle\<close>

text \<open>
  The calls that reach the operating system or the interpreter: the system calls,
  \<open>rb_gc\<close> and \<open>rb_io_set_nonblock\<close>. Every function takes the list of the calls made so
  far and returns it extended. What a system call returns is a parameter: a function of
  the calls made up to and including it, so that a system call can fail once and
  succeed when it is made again.
\<close>

datatype call =
    Gc
  | Socketpair int int int
  | Socket int int int
  | Set_nonblock int
  | Connect int string
  | Bind int string
  | Listen int int
  | Accept int
  | Recvfrom int "int list"

text \<open>The outcome of a system call: the value returned and the \<open>errno\<close> it leaves.\<close>

record sysret =
  ret :: int
  errno :: int

record socketpair_ret = sysret +
  sp :: "int \<times> int"



text \<open>\<open>rb_io_t\<close>, of which the model needs the descriptor.\<close>

record rb_io_t =
  fd :: int

text \<open>\<open>GetOpenFile\<close> of the interpreter: the open file of a socket, an error when closed.\<close>

definition GetOpenFile :: "rb_io_t \<Rightarrow> exn + rb_io_t" where
  "GetOpenFile fptr = (if fd fptr < 0 then Inl (IOError ''closed stream'') else Inr fptr)"

definition init_sock :: "int \<Rightarrow> rb_io_t" where
  "init_sock d = \<lparr> fd = d \<rparr>"







definition sock_connect_nonblock ::
    "(call list \<Rightarrow> sysret) \<Rightarrow> rb_io_t \<Rightarrow> string \<Rightarrow> call list \<Rightarrow> (exn + int) \<times> call list" where
  "sock_connect_nonblock connect sock addr tr =
     (case GetOpenFile sock of
        Inl e \<Rightarrow> (Inl e, tr)
      | Inr fptr \<Rightarrow>
          (let tr1 = tr @ [Set_nonblock (fd fptr)];
               tr2 = tr1 @ [Connect (fd fptr) addr];
               r = connect tr2
           in if ret r < 0 then (Inl (SystemCallError ''connect(2)'' (errno r)), tr2)
              else (Inr (ret r), tr2)))"













subsection \<open>Sample behaviours of the operating system\<close>




definition connect_in_progress :: "call list \<Rightarrow> sysret" where
  "connect_in_progress h = \<lparr> ret = - 1, errno = 115 \<rparr>"

definition connect_done :: "call list \<Rightarrow> sysret" where
  "connect_done h = \<lparr> ret = 0, errno = 0 \<rparr>"

subsection \<open>Reverse lookup\<close>

record addrinfo =
  ai_flags :: int
  ai_family :: int
  ai_socktype :: int
  ai_protocol :: int
  ai_addr :: string

text \<open>\<open>MEMZERO(&hints, struct addrinfo, 1)\<close>.\<close>

definition zero_hints :: addrinfo where
  "zero_hints = \<lparr> ai_flags = 0, ai_family = 0, ai_socktype = 0, ai_protocol = 0, ai_addr = [] \<rparr>"

text \<open>
  The C string left in a buffer of 1024 bytes by \<open>strncpy(buf, s, sizeof(buf))\<close> followed
  by \<open>buf[sizeof(buf) - 1] = '\0'\<close>.
\<close>

definition copy_to_buf :: "string \<Rightarrow> string" where
  "copy_to_buf s = take 1023 (c_string s)"

text \<open>
  The array form of the argument of \<open>getnameinfo\<close>: which elements are the family, the
  port and the host, and the flags of the hints.
\<close>

definition getnameinfo_array ::
    "platform \<Rightarrow> VALUE list \<Rightarrow> exn + (VALUE \<times> VALUE \<times> VALUE \<times> int)" where
  "getnameinfo_array pf sa =
     (if length sa = 3 then Inr (sa ! 0, sa ! 1, sa ! 2, 0)
      else if 4 \<le> length sa
      then (if sa ! 3 = Qnil then Inr (sa ! 0, sa ! 1, sa ! 2, 0)
            else Inr (sa ! 0, sa ! 1, sa ! 3,
                      (case AI_NUMERICHOST pf of None \<Rightarrow> 0 | Some f \<Rightarrow> 0 OR f)))
      else Inl (ArgError (''array size should be 3 or 4, '' @ show_nat (length sa) @
                          '' given'')))"

definition getnameinfo_host :: "VALUE \<Rightarrow> exn + string option" where
  "getnameinfo_host host =
     (if host = Qnil then Inr None
      else case StringValuePtr host of
             Inl e \<Rightarrow> Inl e
           | Inr s \<Rightarrow> Inr (Some (copy_to_buf s)))"

definition getnameinfo_port :: "VALUE \<Rightarrow> exn + string option" where
  "getnameinfo_port port =
     (case port of
        Qnil \<Rightarrow> Inr None
      | Fixnum n \<Rightarrow> Inr (Some (show_int n))
      | _ \<Rightarrow> (case StringValuePtr port of
                Inl e \<Rightarrow> Inl e
              | Inr s \<Rightarrow> Inr (Some (copy_to_buf s))))"

text \<open>
  The arguments of \<open>rb_getaddrinfo\<close> for the array form: \<open>hptr\<close>, \<open>pptr\<close> and the hints.
\<close>

definition getnameinfo_request ::
    "platform \<Rightarrow> (VALUE \<Rightarrow> exn + int) \<Rightarrow> VALUE list \<Rightarrow> int \<Rightarrow>
     exn + (string option \<times> string option \<times> addrinfo)" where
  "getnameinfo_request pf family_arg sa fl =
     (case getnameinfo_array pf sa of
        Inl e \<Rightarrow> Inl e
      | Inr (af, port, host, flags) \<Rightarrow>
          (case getnameinfo_host host of
             Inl e \<Rightarrow> Inl e
           | Inr hptr \<Rightarrow>
               (case getnameinfo_port port of
                  Inl e \<Rightarrow> Inl e
                | Inr pptr \<Rightarrow>
                    (case (if af = Qnil then Inr (PF_UNSPEC pf) else family_arg af) of
                       Inl e \<Rightarrow> Inl e
                     | Inr family \<Rightarrow>
                         Inr (hptr, pptr,
                              zero_hints \<lparr> ai_flags := flags,
                                ai_socktype := (if fl AND NI_DGRAM pf \<noteq> 0 then SOCK_DGRAM pf
                                                else SOCK_STREAM pf),
                                ai_family := family \<rparr>)))))"

text \<open>
  The loop over \<open>res->ai_next\<close>: every further candidate is looked up in turn and
  compared with the names of the first. The last argument and the second component of
  the result list the addresses \<open>rb_getnameinfo\<close> was called with. \<open>rb_getnameinfo\<close> is a
  parameter: it returns its error code, or the host and service names it wrote.
\<close>

fun getnameinfo_candidates ::
    "(string \<Rightarrow> int \<Rightarrow> int + (string \<times> string)) \<Rightarrow> int \<Rightarrow> string \<times> string \<Rightarrow>
     addrinfo list \<Rightarrow> string list \<Rightarrow> (exn + (string \<times> string)) \<times> string list" where
  "getnameinfo_candidates rb_getnameinfo fl names [] looked = (Inr names, looked)"
| "getnameinfo_candidates rb_getnameinfo fl names (r # rs) looked =
     (case rb_getnameinfo (ai_addr r) fl of
        Inl error \<Rightarrow> (Inl (ResolutionError ''getnameinfo'' error), looked @ [ai_addr r])
      | Inr (hbuf2, pbuf2) \<Rightarrow>
          if fst names \<noteq> hbuf2 \<or> snd names \<noteq> pbuf2
          then (Inl (SocketError ''sockaddr resolved to multiple nodename''),
                looked @ [ai_addr r])
          else getnameinfo_candidates rb_getnameinfo fl names rs (looked @ [ai_addr r]))"

text \<open>
  From the label \<open>call_nameinfo\<close> on: the lookup of \<open>sap\<close>, then the loop over the rest
  of \<open>res\<close> (no candidate when \<open>res\<close> is \<open>NULL\<close>).
\<close>

definition call_nameinfo ::
    "(string \<Rightarrow> int \<Rightarrow> int + (string \<times> string)) \<Rightarrow> int \<Rightarrow> string \<Rightarrow> addrinfo list \<Rightarrow>
     (exn + (string \<times> string)) \<times> string list" where
  "call_nameinfo rb_getnameinfo fl sap rest =
     (case rb_getnameinfo sap fl of
        Inl error \<Rightarrow> (Inl (ResolutionError ''getnameinfo'' error), [sap])
      | Inr names \<Rightarrow> getnameinfo_candidates rb_getnameinfo fl names rest [sap])"

text \<open>
  \<open>sock_s_getnameinfo\<close>. \<open>family_arg\<close>, the macro \<open>SA_LEN\<close> and \<open>rb_getaddrinfo\<close> are
  parameters too; \<open>rb_getaddrinfo\<close> returns its error code, or the list \<open>res\<close>, which is
  not empty.
\<close>

definition sock_s_getnameinfo ::
    "platform \<Rightarrow> (VALUE \<Rightarrow> exn + int) \<Rightarrow> (string \<Rightarrow> nat) \<Rightarrow>
     (string option \<Rightarrow> string option \<Rightarrow> addrinfo \<Rightarrow> int + (addrinfo \<times> addrinfo list)) \<Rightarrow>
     (string \<Rightarrow> int \<Rightarrow> int + (string \<times> string)) \<Rightarrow> VALUE \<Rightarrow> int option \<Rightarrow>
     (exn + (string \<times> string)) \<times> string list" where
  "sock_s_getnameinfo pf family_arg SA_LEN rb_getaddrinfo rb_getnameinfo sa flags =
     (let fl = (case flags of None \<Rightarrow> 0 | Some f \<Rightarrow> f)
      in case sa of
           RString s \<Rightarrow>
             if sizeof_sockaddr_storage pf < length s
             then (Inl (TypeError ''sockaddr length too big''), [])
             else if length s \<noteq> SA_LEN s
             then (Inl (TypeError ''sockaddr size differs - should not happen''), [])
             else call_nameinfo rb_getnameinfo fl s []
         | RArray xs \<Rightarrow>
             (case getnameinfo_request pf family_arg xs fl of
                Inl e \<Rightarrow> (Inl e, [])
              | Inr (hptr, pptr, hints) \<Rightarrow>
                  (case rb_getaddrinfo hptr pptr hints of
                     Inl error \<Rightarrow> (Inl (ResolutionError ''getaddrinfo'' error), [])
                   | Inr (r, rs) \<Rightarrow> call_nameinfo rb_getnameinfo fl (ai_addr r) rs))
         | _ \<Rightarrow> (Inl (TypeError ''expecting String or Array''), []))"

text \<open>
  Sample resolvers: an address that expands to three candidates \<open>A\<close>, \<open>B\<close>, \<open>C\<close>; reverse
  lookups that agree on every candidate, that fail on \<open>B\<close> with the error code 2, and
  that give another host name for \<open>B\<close>.
\<close>

definition three_candidates ::
    "string option \<Rightarrow> string option \<Rightarrow> addrinfo \<Rightarrow> int + (addrinfo \<times> addrinfo list)" where
  "three_candidates hptr pptr hints =
     Inr (hints \<lparr> ai_addr := ''A'' \<rparr>,
          [hints \<lparr> ai_addr := ''B'' \<rparr>, hints \<lparr> ai_addr := ''C'' \<rparr>])"

definition names_agree :: "string \<Rightarrow> int \<Rightarrow> int + (string \<times> string)" where
  "names_agree sap fl = Inr (''localhost'', ''www'')"

definition names_fail_on_B :: "string \<Rightarrow> int \<Rightarrow> int + (string \<times> string)" where
  "names_fail_on_B sap fl = (if sap = ''B'' then Inl 2 else Inr (''localhost'', ''www''))"

definition names_differ_on_B :: "string \<Rightarrow> int \<Rightarrow> int + (string \<times> string)" where
  "names_differ_on_B sap fl =
     (if sap = ''B'' then Inr (''elsewhere'', ''www'') else Inr (''localhost'', ''www''))"

section \<open>Properties\<close>

subsection \<open>Buffers too short for the family tag\<close>

text \<open>
  C8. A buffer shorter than the bytes needed to carry the address-family tag makes both
  \<open>unpack_sockaddr_in\<close> and \<open>unpack_sockaddr_un\<close> raise the argument error
  "too short sockaddr": the error branch is the first one, taken for every such buffer,
  before any byte of the buffer is read.
\<close>

theorem unpack_too_short:
  assumes "length addr < family_tag_end pf"
  shows "sock_s_unpack_sockaddr_in pf make_ipaddr addr = Inl (ArgError ''too short sockaddr'') \<and>
         sock_s_unpack_sockaddr_un pf addr = Inl (ArgError ''too short sockaddr'')"
  using assms by (simp add: sock_s_unpack_sockaddr_in_def sock_s_unpack_sockaddr_un_def)

theorem unpack_too_short_witness:
  "length [CHR 0x01] < family_tag_end linux \<and>
   sock_s_unpack_sockaddr_in linux Inr [CHR 0x01] = Inl (ArgError ''too short sockaddr'') \<and>
   sock_s_unpack_sockaddr_un linux [CHR 0x01] = Inl (ArgError ''too short sockaddr'')"
proof -
  have short: "length [CHR 0x01] < family_tag_end linux"
    by (simp add: family_tag_end_def linux_def)
  from unpack_too_short [OF short, of Inr] short show ?thesis by simp
qed

subsection \<open>Memory lemmas\<close>

lemma le_nat_le_bytes: "le_nat (le_bytes k n) = n mod 256 ^ k"
  apply (induction k arbitrary: n)
   apply simp
  apply (simp add: mod_mult2_eq)
  done

lemma length_le_bytes: "length (le_bytes k n) = k"
  by (induction k arbitrary: n) auto

lemma length_uint_bytes: "length (uint_bytes pf k n) = k"
  by (simp add: uint_bytes_def length_le_bytes)

lemma load_uint_bytes:
  "load_uint pf (uint_bytes pf k n @ rest) 0 k = n mod 256 ^ k"
  by (simp add: load_uint_def uint_bytes_def length_le_bytes le_nat_le_bytes)

lemma c_string_append_NUL: "c_string (xs @ [NUL]) = c_string xs"
  by (induction xs) (auto simp: c_string_def)

lemma c_string_id: "NUL \<notin> set xs \<Longrightarrow> c_string xs = xs"
  by (induction xs) (auto simp: c_string_def)

lemma c_string_pad: "NUL \<notin> set xs \<Longrightarrow> c_string (xs @ NUL # ys) = xs"
  by (induction xs) (auto simp: c_string_def)

lemma length_c_string_le: "length (c_string xs) \<le> length xs"
  by (simp add: c_string_def length_takeWhile_le)

lemma length_c_string_eq: "(length (c_string xs) = length xs) = (NUL \<notin> set xs)"
  by (induction xs) (use length_c_string_le in \<open>auto simp: c_string_def\<close>)

lemma length_mem_write:
  "off + length src \<le> length buf \<Longrightarrow> length (mem_write buf off src) = length buf"
  by (simp add: mem_write_def)

lemma drop_mem_write:
  "off \<le> length buf \<Longrightarrow> drop off (mem_write buf off src) = src @ drop (off + length src) buf"
  by (simp add: mem_write_def)

lemma take_mem_write:
  "n \<le> off \<Longrightarrow> off \<le> length buf \<Longrightarrow> take n (mem_write buf off src) = take n buf"
  by (simp add: mem_write_def)

lemma load_uint_mem_write_before:
  "a + k \<le> off \<Longrightarrow> off \<le> length buf \<Longrightarrow>
   load_uint pf (mem_write buf off src) a k = load_uint pf buf a k"
proof -
  assume h: "a + k \<le> off" "off \<le> length buf"
  have "take k (drop a (mem_write buf off src)) = drop a (take (a + k) (mem_write buf off src))"
    by (simp add: drop_take)
  also have "\<dots> = drop a (take (a + k) buf)"
    using h by (simp add: take_mem_write)
  also have "\<dots> = take k (drop a buf)"
    by (simp add: drop_take)
  finally show ?thesis by (simp add: load_uint_def)
qed

lemma load_uint_mem_write_same:
  "off \<le> length buf \<Longrightarrow>
   load_uint pf (mem_write buf off (uint_bytes pf k n)) off k = n mod 256 ^ k"
  by (simp add: load_uint_def drop_mem_write uint_bytes_def length_le_bytes le_nat_le_bytes)


lemma pack_ok:
  assumes ok: "platform_ok pf" and nul: "NUL \<notin> set path"
      and len: "length path < sun_path_size pf"
  shows "sock_s_pack_sockaddr_un pf path =
           Inr (mem_write (mem_write (replicate (sizeof_sockaddr_un pf) NUL) (sa_family_offset pf)
                  (uint_bytes pf (sa_family_size pf) (AF_UNIX pf)))
                (sun_path_offset pf) (path @ replicate (sun_path_size pf - 1 - length path) NUL))"
  using nul len
  by (simp add: sock_s_pack_sockaddr_un_def StringValueCStr_def strlen_def strncpy_def c_string_id Let_def)

lemma pack_too_long:
  assumes nul: "NUL \<notin> set path"
  shows "(sock_s_pack_sockaddr_un pf path =
            Inl (ArgError (''too long unix socket path (max: '' @
                           show_int (int (sun_path_size pf) - 1) @ ''bytes)''))) =
         (sun_path_size pf \<le> length path)"
  using nul
  by (simp add: sock_s_pack_sockaddr_un_def StringValueCStr_def strlen_def c_string_id Let_def)

lemma packed_props:
  assumes ok: "platform_ok pf" and len: "length path < sun_path_size pf"
  defines "tagged \<equiv> mem_write (replicate (sizeof_sockaddr_un pf) NUL) (sa_family_offset pf)
                  (uint_bytes pf (sa_family_size pf) (AF_UNIX pf))"
  defines "addr \<equiv> mem_write tagged
                (sun_path_offset pf) (path @ replicate (sun_path_size pf - 1 - length path) NUL)"
  shows "length addr = sizeof_sockaddr_un pf"
    and "sa_family pf addr = AF_UNIX pf"
    and "drop (sun_path_offset pf) addr =
           path @ replicate (sizeof_sockaddr_un pf - sun_path_offset pf - length path) NUL"
proof -
  from ok have b: "sa_family_offset pf + sa_family_size pf \<le> sun_path_offset pf"
     "sun_path_offset pf + sun_path_size pf \<le> sizeof_sockaddr_un pf" "0 < sun_path_size pf"
     "AF_UNIX pf < 256 ^ sa_family_size pf"
    by (simp_all add: platform_ok_def)
  have lt: "length tagged = sizeof_sockaddr_un pf"
    unfolding tagged_def using b by (simp add: length_mem_write length_uint_bytes)
  show "length addr = sizeof_sockaddr_un pf"
    unfolding addr_def using b len lt by (simp add: length_mem_write)
  have "sa_family pf addr = load_uint pf tagged (sa_family_offset pf) (sa_family_size pf)"
    unfolding addr_def sa_family_def using b lt by (simp add: load_uint_mem_write_before)
  also have "\<dots> = AF_UNIX pf mod 256 ^ sa_family_size pf"
    unfolding tagged_def using b by (simp add: load_uint_mem_write_same)
  finally show "sa_family pf addr = AF_UNIX pf" using b by simp
  have "drop (sun_path_offset pf) addr =
          (path @ replicate (sun_path_size pf - 1 - length path) NUL) @
          drop (sun_path_offset pf + (sun_path_size pf - 1)) tagged"
    unfolding addr_def using b len lt by (simp add: drop_mem_write)
  also have "drop (sun_path_offset pf + (sun_path_size pf - 1)) tagged =
          replicate (sizeof_sockaddr_un pf - (sun_path_offset pf + (sun_path_size pf - 1))) NUL"
    unfolding tagged_def mem_write_def using b by (simp add: length_uint_bytes)
  finally show "drop (sun_path_offset pf) addr =
           path @ replicate (sizeof_sockaddr_un pf - sun_path_offset pf - length path) NUL"
    using b len by (simp add: replicate_add [symmetric])
qed

lemma unpack_packed:
  assumes ok: "platform_ok pf" and nul: "NUL \<notin> set path"
      and len: "length path < sun_path_size pf"
      and l: "length addr = sizeof_sockaddr_un pf"
      and f: "sa_family pf addr = AF_UNIX pf"
      and d: "drop (sun_path_offset pf) addr =
           path @ replicate (sizeof_sockaddr_un pf - sun_path_offset pf - length path) NUL"
  shows "sock_s_unpack_sockaddr_un pf addr = Inr path"
proof -
  from ok have b: "sa_family_offset pf + sa_family_size pf \<le> sun_path_offset pf"
     "sun_path_offset pf + sun_path_size pf \<le> sizeof_sockaddr_un pf" "0 < sun_path_size pf"
    by (simp_all add: platform_ok_def)
  have up: "unixpath pf (length addr) = Ptr_addr (sun_path_offset pf)"
    using b l by (simp add: unixpath_def)
  have "drop (sun_path_offset pf) (RSTRING_mem addr) = drop (sun_path_offset pf) addr @ [NUL]"
    using b l by (simp add: RSTRING_mem_def)
  also have "\<dots> = path @ NUL # replicate (sizeof_sockaddr_un pf - sun_path_offset pf - length path) NUL"
    unfolding d by (simp add: replicate_append_same)
  finally have de: "deref addr (Ptr_addr (sun_path_offset pf)) = path"
    using nul by (simp add: deref_def c_string_pad)
  have "\<not> ends_at_buffer_end addr (Ptr_addr (sun_path_offset pf))"
    using b len l by (simp add: ends_at_buffer_end_def de)
  then show ?thesis
    using b l f up de by (simp add: sock_s_unpack_sockaddr_un_def family_tag_end_def)
qed

lemma platform_ok_linux: "platform_ok linux"
  by (simp add: platform_ok_def linux_def)

subsection \<open>Round trip of UNIX-domain paths\<close>

text \<open>
  C3. For every path with no embedded NUL byte: when the path is at most one byte
  shorter than the \<open>sun_path\<close> field, \<open>unpack_sockaddr_un\<close> of \<open>pack_sockaddr_un\<close> of the
  path is the path; and \<open>pack_sockaddr_un\<close> raises the too-long-path error exactly when
  \<open>strlen(path) >= sizeof(sun_path)\<close>, that is when the path and its NUL terminator do
  not fit the field.
\<close>

theorem sockaddr_un_roundtrip:
  assumes "platform_ok pf" and "NUL \<notin> set path"
  shows "(length path \<le> sun_path_size pf - 1 \<longrightarrow>
            (\<exists>addr. sock_s_pack_sockaddr_un pf path = Inr addr \<and>
                    sock_s_unpack_sockaddr_un pf addr = Inr path)) \<and>
         ((sock_s_pack_sockaddr_un pf path =
             Inl (ArgError (''too long unix socket path (max: '' @
                            show_int (int (sun_path_size pf) - 1) @ ''bytes)''))) =
          (sun_path_size pf \<le> strlen path))"
proof (intro conjI impI)
  assume "length path \<le> sun_path_size pf - 1"
  with assms(1) have len: "length path < sun_path_size pf"
    unfolding platform_ok_def by linarith
  show "\<exists>addr. sock_s_pack_sockaddr_un pf path = Inr addr \<and>
                    sock_s_unpack_sockaddr_un pf addr = Inr path"
    using pack_ok [OF assms len] unpack_packed [OF assms len packed_props [OF assms(1) len]]
    by simp
next
  show "(sock_s_pack_sockaddr_un pf path =
             Inl (ArgError (''too long unix socket path (max: '' @
                            show_int (int (sun_path_size pf) - 1) @ ''bytes)''))) =
          (sun_path_size pf \<le> strlen path)"
    using pack_too_long [OF assms(2)] assms(2) by (simp add: strlen_def c_string_id)
qed

theorem sockaddr_un_roundtrip_witness:
  "platform_ok linux \<and> NUL \<notin> set ''/tmp/sock'' \<and>
   length ''/tmp/sock'' \<le> sun_path_size linux - 1 \<and>
   (\<exists>addr. sock_s_pack_sockaddr_un linux ''/tmp/sock'' = Inr addr \<and>
           sock_s_unpack_sockaddr_un linux addr = Inr ''/tmp/sock'') \<and>
   sock_s_pack_sockaddr_un linux ''/tmp/sock'' \<noteq>
     Inl (ArgError (''too long unix socket path (max: '' @
                    show_int (int (sun_path_size linux) - 1) @ ''bytes)''))"
proof -
  have nul: "NUL \<notin> set ''/tmp/sock''" by simp
  have len: "length ''/tmp/sock'' \<le> sun_path_size linux - 1" by (simp add: linux_def)
  have short: "\<not> sun_path_size linux \<le> strlen ''/tmp/sock''"
    by (simp add: linux_def strlen_def c_string_def)
  from sockaddr_un_roundtrip [OF platform_ok_linux nul] len short nul platform_ok_linux
  show ?thesis by simp
qed

subsection \<open>The NUL-termination rule of \<open>unpack_sockaddr_un\<close>\<close>

lemma ends_at_buffer_end_iff:
  assumes "off \<le> length addr"
  shows "ends_at_buffer_end addr (Ptr_addr off) = (NUL \<notin> set (drop off addr))"
proof -
  have "drop off (RSTRING_mem addr) = drop off addr @ [NUL]"
    using assms by (simp add: RSTRING_mem_def)
  then have d: "deref addr (Ptr_addr off) = c_string (drop off addr)"
    by (simp add: deref_def c_string_append_NUL)
  show ?thesis
    using length_c_string_eq [of "drop off addr"] assms
    by (auto simp: ends_at_buffer_end_def d)
qed

lemma deref_field:
  assumes "off \<le> length addr"
  shows "deref addr (Ptr_addr off) = c_string (drop off addr)"
proof -
  have "drop off (RSTRING_mem addr) = drop off addr @ [NUL]"
    using assms by (simp add: RSTRING_mem_def)
  then show ?thesis
    by (simp add: deref_def c_string_append_NUL)
qed

lemma unpack_un_not_nul_terminated_only:
  assumes "sock_s_unpack_sockaddr_un pf addr = Inl (ArgError ''sockaddr_un.sun_path not NUL terminated'')"
  shows "length addr = sizeof_sockaddr_un pf \<and>
         unixpath pf (length addr) = Ptr_addr (sun_path_offset pf) \<and>
         NUL \<notin> set (drop (sun_path_offset pf) addr)"
proof -
  from assms have c: "sizeof_sockaddr_un pf = length addr"
      "unixpath pf (length addr) = Ptr_addr (sun_path_offset pf)"
      "ends_at_buffer_end addr (unixpath pf (length addr))"
    by (auto simp: sock_s_unpack_sockaddr_un_def Let_def split: if_splits)
  from c(2) have "sun_path_offset pf < length addr"
    by (auto simp: unixpath_def split: if_splits)
  with c show ?thesis
    by (simp add: ends_at_buffer_end_iff)
qed

lemma unpack_un_in_range:
  assumes tag: "family_tag_end pf \<le> length addr"
      and fam: "sa_family pf addr = AF_UNIX pf"
      and len: "length addr \<le> sizeof_sockaddr_un pf"
  shows "sock_s_unpack_sockaddr_un pf addr =
           (if length addr = sizeof_sockaddr_un pf \<and> sun_path_offset pf < length addr \<and>
               NUL \<notin> set (drop (sun_path_offset pf) addr)
            then Inl (ArgError ''sockaddr_un.sun_path not NUL terminated'')
            else Inr (c_string (drop (sun_path_offset pf) addr)))"
proof (cases "sun_path_offset pf < length addr")
  case True
  then have up: "unixpath pf (length addr) = Ptr_addr (sun_path_offset pf)"
    by (simp add: unixpath_def)
  from True have le: "sun_path_offset pf \<le> length addr" by simp
  show ?thesis
    using tag fam len True
    by (auto simp: sock_s_unpack_sockaddr_un_def up ends_at_buffer_end_iff [OF le] deref_field [OF le])
next
  case False
  then have up: "unixpath pf (length addr) = Ptr_literal []"
    by (simp add: unixpath_def)
  from False have "drop (sun_path_offset pf) addr = []" by simp
  then show ?thesis
    using tag fam len False
    by (simp add: sock_s_unpack_sockaddr_un_def up deref_def c_string_def)
qed

text \<open>
  C2 (amended). For every buffer that carries the family tag \<open>AF_UNIX\<close>,
  \<open>unpack_sockaddr_un\<close> raises the not-NUL-terminated error if and only if the buffer is
  exactly \<open>sizeof(struct sockaddr_un)\<close> long, the extracted path starts at the beginning
  of the \<open>sun_path\<close> field, and no byte from there to the end of the buffer is NUL. When
  the buffer is no longer than the structure: in every other case a path with no NUL
  byte is accepted and is all the bytes of the buffer from the start of the field, and a
  path with a NUL byte decodes to the bytes before the first NUL. A buffer longer than
  the structure is rejected with the too-long type error, whatever its path.
\<close>

theorem unpack_sockaddr_un_nul_rule:
  assumes tag: "family_tag_end pf \<le> length addr"
      and fam: "sa_family pf addr = AF_UNIX pf"
  shows "((sock_s_unpack_sockaddr_un pf addr =
             Inl (ArgError ''sockaddr_un.sun_path not NUL terminated'')) =
          (length addr = sizeof_sockaddr_un pf \<and>
           unixpath pf (length addr) = Ptr_addr (sun_path_offset pf) \<and>
           NUL \<notin> set (drop (sun_path_offset pf) addr))) \<and>
         (length addr \<le> sizeof_sockaddr_un pf \<and>
          sock_s_unpack_sockaddr_un pf addr \<noteq>
             Inl (ArgError ''sockaddr_un.sun_path not NUL terminated'') \<and>
          NUL \<notin> set (drop (sun_path_offset pf) addr) \<longrightarrow>
            sock_s_unpack_sockaddr_un pf addr = Inr (drop (sun_path_offset pf) addr)) \<and>
         (length addr \<le> sizeof_sockaddr_un pf \<and>
          NUL \<in> set (drop (sun_path_offset pf) addr) \<longrightarrow>
            sock_s_unpack_sockaddr_un pf addr =
              Inr (takeWhile (\<lambda>c. c \<noteq> NUL) (drop (sun_path_offset pf) addr))) \<and>
         (sizeof_sockaddr_un pf < length addr \<longrightarrow>
            sock_s_unpack_sockaddr_un pf addr =
              Inl (TypeError (''too long sockaddr_un - '' @ show_nat (length addr) @
                              '' longer than '' @ show_nat (sizeof_sockaddr_un pf))))"
proof (cases "length addr \<le> sizeof_sockaddr_un pf")
  case True
  have up: "(unixpath pf (length addr) = Ptr_addr (sun_path_offset pf)) =
            (sun_path_offset pf < length addr)"
    by (simp add: unixpath_def)
  show ?thesis
    unfolding unpack_un_in_range [OF tag fam True] up
    using True by (auto simp: c_string_id c_string_def)
next
  case False
  then have "sock_s_unpack_sockaddr_un pf addr =
      Inl (TypeError (''too long sockaddr_un - '' @ show_nat (length addr) @
                      '' longer than '' @ show_nat (sizeof_sockaddr_un pf)))"
    using tag fam by (simp add: sock_s_unpack_sockaddr_un_def)
  with False show ?thesis by simp
qed

theorem unpack_sockaddr_un_nul_rule_witness:
  "family_tag_end linux \<le> length [CHR 0x01, NUL, CHR ''a'', NUL] \<and>
   sa_family linux [CHR 0x01, NUL, CHR ''a'', NUL] = AF_UNIX linux \<and>
   length [CHR 0x01, NUL, CHR ''a'', NUL] \<le> sizeof_sockaddr_un linux \<and>
   NUL \<in> set (drop (sun_path_offset linux) [CHR 0x01, NUL, CHR ''a'', NUL]) \<and>
   sock_s_unpack_sockaddr_un linux [CHR 0x01, NUL, CHR ''a'', NUL] = Inr ''a''"
proof -
  have tag: "family_tag_end linux \<le> length [CHR 0x01, NUL, CHR ''a'', NUL]"
    by (simp add: family_tag_end_def linux_def)
  have fam: "sa_family linux [CHR 0x01, NUL, CHR ''a'', NUL] = AF_UNIX linux"
    by (simp add: sa_family_def load_uint_def linux_def)
  have len: "length [CHR 0x01, NUL, CHR ''a'', NUL] \<le> sizeof_sockaddr_un linux"
    by (simp add: linux_def)
  have nul: "NUL \<in> set (drop (sun_path_offset linux) [CHR 0x01, NUL, CHR ''a'', NUL])"
    by (simp add: linux_def)
  have path: "takeWhile (\<lambda>c. c \<noteq> NUL) (drop (sun_path_offset linux) [CHR 0x01, NUL, CHR ''a'', NUL]) = ''a''"
    by (simp add: linux_def)
  from unpack_sockaddr_un_nul_rule [OF tag fam, THEN conjunct2, THEN conjunct2, THEN conjunct1]
    len nul path
  have "sock_s_unpack_sockaddr_un linux [CHR 0x01, NUL, CHR ''a'', NUL] = Inr ''a''"
    by simp
  with tag fam len nul show ?thesis by simp
qed

theorem unpack_sockaddr_un_too_long_counterexample:
  "sa_family linux ([CHR 0x01, NUL] @ ''a'' @ replicate 108 NUL) = AF_UNIX linux \<and>
   NUL \<in> set (drop (sun_path_offset linux) ([CHR 0x01, NUL] @ ''a'' @ replicate 108 NUL)) \<and>
   sock_s_unpack_sockaddr_un linux ([CHR 0x01, NUL] @ ''a'' @ replicate 108 NUL) =
     Inl (TypeError ''too long sockaddr_un - 111 longer than 110'')"
  by (simp add: sock_s_unpack_sockaddr_un_def sa_family_def load_uint_def family_tag_end_def
        linux_def show_nat.simps)

subsection \<open>Unrecognised address families\<close>

text \<open>
  C4 (amended). For every buffer long enough to carry a family tag whose family is none
  of \<open>AF_INET\<close>, \<open>AF_INET6\<close>, \<open>AF_UNIX\<close>, every decoder raises:
  \<open>unpack_sockaddr_in\<close> the argument error "not an AF_INET/AF_INET6 sockaddr"
  ("not an AF_INET sockaddr" on a build without IPv6), \<open>unpack_sockaddr_un\<close> the
  argument error "not an AF_UNIX sockaddr", and \<open>sock_sockaddr\<close> the socket error
  "unknown socket family:" followed by the family number. No address is returned.
\<close>

theorem unknown_family_rejected:
  assumes "family_tag_end pf \<le> length addr"
      and "sa_family pf addr \<noteq> AF_INET pf"
      and "sa_family pf addr \<noteq> AF_INET6 pf"
      and "sa_family pf addr \<noteq> AF_UNIX pf"
  shows "sock_s_unpack_sockaddr_in pf make_ipaddr addr =
           Inl (ArgError (if INET6 pf then ''not an AF_INET/AF_INET6 sockaddr''
                          else ''not an AF_INET sockaddr'')) \<and>
         sock_s_unpack_sockaddr_un pf addr = Inl (ArgError ''not an AF_UNIX sockaddr'') \<and>
         sock_sockaddr pf addr =
           Inl (SocketError (''unknown socket family:'' @ show_nat (sa_family pf addr)))"
  using assms
  by (simp add: sock_s_unpack_sockaddr_in_def sock_s_unpack_sockaddr_un_def sock_sockaddr_def)

theorem unknown_family_rejected_witness:
  "family_tag_end linux \<le> length ([CHR 0x63, NUL] @ replicate 14 NUL) \<and>
   sa_family linux ([CHR 0x63, NUL] @ replicate 14 NUL) = 99 \<and>
   sock_s_unpack_sockaddr_in linux Inr ([CHR 0x63, NUL] @ replicate 14 NUL) =
     Inl (ArgError ''not an AF_INET/AF_INET6 sockaddr'') \<and>
   sock_s_unpack_sockaddr_un linux ([CHR 0x63, NUL] @ replicate 14 NUL) =
     Inl (ArgError ''not an AF_UNIX sockaddr'') \<and>
   sock_sockaddr linux ([CHR 0x63, NUL] @ replicate 14 NUL) =
     Inl (SocketError ''unknown socket family:99'')"
proof -
  have tag: "family_tag_end linux \<le> length ([CHR 0x63, NUL] @ replicate 14 NUL)"
    by (simp add: family_tag_end_def linux_def)
  have fam: "sa_family linux ([CHR 0x63, NUL] @ replicate 14 NUL) = 99"
    by (simp add: sa_family_def load_uint_def linux_def)
  have ne: "sa_family linux ([CHR 0x63, NUL] @ replicate 14 NUL) \<noteq> AF_INET linux"
      "sa_family linux ([CHR 0x63, NUL] @ replicate 14 NUL) \<noteq> AF_INET6 linux"
      "sa_family linux ([CHR 0x63, NUL] @ replicate 14 NUL) \<noteq> AF_UNIX linux"
    unfolding fam by (simp_all add: linux_def)
  have six: "INET6 linux" by (simp add: linux_def)
  have sh: "show_nat 99 = ''99''" by (simp add: show_nat.simps)
  from unknown_family_rejected [OF tag ne, of Inr] tag fam six sh show ?thesis by simp
qed

theorem opaque_address_counterexample:
  "family_tag_end linux \<le> length ([CHR 0x63, NUL] @ replicate 14 NUL) \<and>
   sa_family linux ([CHR 0x63, NUL] @ replicate 14 NUL) = 99 \<and>
   sock_s_unpack_sockaddr_in linux Inr ([CHR 0x63, NUL] @ replicate 14 NUL) =
     Inl (ArgError ''not an AF_INET/AF_INET6 sockaddr'')"
  by (simp add: sock_s_unpack_sockaddr_in_def sa_family_def load_uint_def family_tag_end_def
        linux_def)

subsection \<open>The port range of \<open>getservbyport\<close>\<close>

lemma uint_bytes_htons:
  "x < 65536 \<Longrightarrow> uint_bytes pf 2 (htons pf x) = [char_of (x div 256), char_of (x mod 256)]"
  by (simp add: uint_bytes_def htons_def swap16_def numeral_2_eq_2)

lemma uint16_cast_differs: "(port \<noteq> port mod 65536) = (port < 0 \<or> 65535 < (port::int))"
proof -
  have r: "0 \<le> port mod 65536" "port mod 65536 < 65536" by simp_all
  show ?thesis
  proof (cases "0 \<le> port \<and> port < 65536")
    case True
    then show ?thesis by (simp add: mod_pos_pos_trivial)
  next
    case False
    with r show ?thesis by auto
  qed
qed

lemma getservbyport_calls:
  "l \<in> set (snd (sock_s_getservbyport pf getservbyport port proto)) \<Longrightarrow>
   0 \<le> port \<and> port \<le> 65535 \<and> fst l = htons pf (nat port)"
  by (auto simp: sock_s_getservbyport_def NUM2LONG_def Let_def uint16_cast_differs
      mod_pos_pos_trivial
      split: sum.splits if_splits option.splits)

lemma getservbyport_out_of_range:
  assumes "port < 0 \<or> 65535 < port"
  shows "(\<exists>msg. fst (sock_s_getservbyport pf getservbyport port proto) = Inl (RangeError msg)) \<and>
      snd (sock_s_getservbyport pf getservbyport port proto) = []"
  using assms
  by (auto simp: sock_s_getservbyport_def NUM2LONG_def uint16_cast_differs
      split: sum.splits)

text \<open>
  C9. For every integer port that does not fit an unsigned 16-bit integer (negative, or
  above 65535), \<open>getservbyport\<close> raises a range error and makes no call of the service
  database. Every call of the database that is made is for a port in the range 0 to
  65535, and its argument is the port in network byte order: \<open>htons\<close> of the port, whose
  two bytes in memory are the high byte, then the low byte.
\<close>

theorem getservbyport_range_check:
  "(port < 0 \<or> 65535 < port \<longrightarrow>
      (\<exists>msg. fst (sock_s_getservbyport pf getservbyport port proto) = Inl (RangeError msg)) \<and>
      snd (sock_s_getservbyport pf getservbyport port proto) = []) \<and>
   (\<forall>l \<in> set (snd (sock_s_getservbyport pf getservbyport port proto)).
      0 \<le> port \<and> port \<le> 65535 \<and> fst l = htons pf (nat port) \<and>
      uint_bytes pf 2 (fst l) = [char_of (nat port div 256), char_of (nat port mod 256)])"
proof (intro conjI impI ballI)
  fix l assume l: "l \<in> set (snd (sock_s_getservbyport pf getservbyport port proto))"
  from getservbyport_calls [OF l]
  show "0 \<le> port" "port \<le> 65535" "fst l = htons pf (nat port)" by simp_all
  from getservbyport_calls [OF l] have "nat port < 65536" by linarith
  from uint_bytes_htons [OF this] getservbyport_calls [OF l]
  show "uint_bytes pf 2 (fst l) = [char_of (nat port div 256), char_of (nat port mod 256)]"
    by simp
qed (use getservbyport_out_of_range in auto)

theorem getservbyport_range_check_witness:
  "(65535 :: int) < 70000 \<and>
   (\<exists>msg. fst (sock_s_getservbyport linux (\<lambda>p n. None) 70000 None) = Inl (RangeError msg)) \<and>
   snd (sock_s_getservbyport linux (\<lambda>p n. None) 70000 None) = [] \<and>
   snd (sock_s_getservbyport linux (\<lambda>p n. None) 80 None) = [(20480, ''tcp'')] \<and>
   uint_bytes linux 2 20480 = [CHR 0x00, CHR ''P'']"
proof -
  have calls: "snd (sock_s_getservbyport linux (\<lambda>p n. None) 80 None) = [(20480, ''tcp'')]"
    by (simp add: sock_s_getservbyport_def NUM2LONG_def protoname_of_def htons_def swap16_def
        linux_def)
  have c80: "[char_of (nat 80 div 256), char_of (nat 80 mod 256)] = [CHR 0x00, CHR ''P'']"
    by code_simp
  from getservbyport_range_check [of 70000 linux "\<lambda>p n. None" None]
  have a: "(\<exists>msg. fst (sock_s_getservbyport linux (\<lambda>p n. None) 70000 None) = Inl (RangeError msg)) \<and>
   snd (sock_s_getservbyport linux (\<lambda>p n. None) 70000 None) = []"
    by simp
  from getservbyport_range_check [of 80 linux "\<lambda>p n. None" None] calls c80
  have b: "uint_bytes linux 2 20480 = [CHR 0x00, CHR ''P'']"
    by simp
  from a b calls show ?thesis by simp
qed

subsection \<open>The address family of \<open>gethostbyaddr\<close>\<close>

text \<open>
  C10. Without a family argument, \<open>gethostbyaddr\<close> calls the resolver with \<open>AF_INET6\<close>
  when the address is exactly 16 bytes long on a build with IPv6, and with \<open>AF_INET\<close>
  otherwise. With a family argument, the family of the call is the one \<open>family_arg\<close>
  gives for it, whatever the length of the address; when \<open>family_arg\<close> raises, the
  exception is the result and no call is made.
\<close>

theorem gethostbyaddr_family:
  "snd (sock_s_gethostbyaddr pf family_arg gethostbyaddr hstrerror addr Qnil) =
     [(addr, length addr,
       if INET6 pf \<and> length addr = 16 then int (AF_INET6 pf) else int (AF_INET pf))] \<and>
   (family \<noteq> Qnil \<and> family_arg family = Inr t \<longrightarrow>
      snd (sock_s_gethostbyaddr pf family_arg gethostbyaddr hstrerror addr family) =
        [(addr, length addr, t)]) \<and>
   (family \<noteq> Qnil \<and> family_arg family = Inl e \<longrightarrow>
      sock_s_gethostbyaddr pf family_arg gethostbyaddr hstrerror addr family = (Inl e, []))"
  by (simp add: sock_s_gethostbyaddr_def split: sum.splits)

theorem gethostbyaddr_family_witness:
  "snd (sock_s_gethostbyaddr linux (\<lambda>v. Inr 2) (\<lambda>a n t. Inl 1) None (replicate 16 NUL) Qnil) =
     [(replicate 16 NUL, 16, 10)] \<and>
   snd (sock_s_gethostbyaddr linux (\<lambda>v. Inr 2) (\<lambda>a n t. Inl 1) None (replicate 4 NUL) Qnil) =
     [(replicate 4 NUL, 4, 2)] \<and>
   Fixnum 2 \<noteq> Qnil \<and>
   snd (sock_s_gethostbyaddr linux (\<lambda>v. Inr 2) (\<lambda>a n t. Inl 1) None (replicate 16 NUL) (Fixnum 2)) =
     [(replicate 16 NUL, 16, 2)]"
proof -
  have six: "INET6 linux" "AF_INET6 linux = 10" "AF_INET linux = 2" by (simp_all add: linux_def)
  from gethostbyaddr_family [of linux "\<lambda>v. Inr 2" "\<lambda>a n t. Inl 1" None "replicate 16 NUL" "Fixnum 2" 2]
       gethostbyaddr_family [of linux "\<lambda>v. Inr 2" "\<lambda>a n t. Inl 1" None "replicate 4 NUL" "Fixnum 2" 2]
       six
  show ?thesis by simp
qed

subsection \<open>The fallback of \<open>getservbyname\<close>\<close>

lemma c_at_end: "NUL \<notin> set s \<Longrightarrow> (c_at s i \<noteq> NUL) = (i < length s)"
  by (auto simp: c_at_def dest: nth_mem)

lemma getservbyname_miss:
  assumes "NUL \<notin> set service" and "protoname_of proto = Inr protoname"
      and "getservbyname service protoname = None"
  shows "sock_s_getservbyname pf STRTOUL getservbyname service proto =
           (if snd (STRTOUL service 0) < length service
            then Inl (SocketError (''no such service '' @ service @ ''/'' @ protoname))
            else Inr (ulong_to_int (fst (STRTOUL service 0))))"
  using assms
  by (simp add: sock_s_getservbyname_def StringValueCStr_def c_at_end split: prod.splits)

lemma decimal_from_ge: "acc \<le> decimal_from acc ds"
proof (induction ds arbitrary: acc)
  case Nil
  then show ?case by simp
next
  case (Cons c ds)
  have "acc \<le> acc * 10 + (of_char c - 48)" by simp
  also have "\<dots> \<le> decimal_from (acc * 10 + (of_char c - 48)) ds"
    by (rule Cons.IH)
  finally show ?case by simp
qed

lemma digit_value_decimal: "decimal_digit c \<Longrightarrow> digit_value c = Some (of_char c - 48)"
  by (simp add: decimal_digit_def digit_value_def)

lemma strtoul_digits_decimal:
  assumes "\<forall>c \<in> set ds. decimal_digit c"
      and "decimal_from acc ds \<le> m"
  shows "strtoul_digits 10 m ds acc False k = (decimal_from acc ds, False, k + length ds)"
  using assms
proof (induction ds arbitrary: acc k)
  case Nil
  then show ?case by simp
next
  case (Cons c ds)
  from Cons.prems(1) have d: "decimal_digit c" by simp
  then have lt: "(of_char c :: nat) - 48 < 10" by (auto simp: decimal_digit_def)
  have "acc * 10 + (of_char c - 48) \<le> decimal_from (acc * 10 + (of_char c - 48)) ds"
    by (rule decimal_from_ge)
  with Cons.prems(2) have le: "acc * 10 + (of_char c - 48) \<le> m" by simp
  from Cons.prems have
    "strtoul_digits 10 m ds (acc * 10 + (of_char c - 48)) False (Suc k) =
       (decimal_from (acc * 10 + (of_char c - 48)) ds, False, Suc k + length ds)"
    by (intro Cons.IH) simp_all
  with lt le show ?case
    by (simp add: digit_value_decimal [OF d])
qed

lemma decimal_not_space: "decimal_digit c \<Longrightarrow> \<not> isspace c"
  by (auto simp: decimal_digit_def isspace_def)

lemma decimal_not_sign: "decimal_digit c \<Longrightarrow> c \<noteq> CHR ''-'' \<and> c \<noteq> CHR ''+'' \<and> c \<noteq> NUL"
  by (auto simp: decimal_digit_def)

lemma strtoul_radix_decimal:
  "s \<noteq> [] \<Longrightarrow> hd s \<noteq> CHR ''0'' \<Longrightarrow> strtoul_radix 0 s = (10, 0)"
  by (cases "(0::nat, s)" rule: strtoul_radix.cases) auto

lemma c_strtoul_decimal:
  assumes ne: "s \<noteq> []" and dig: "\<forall>c \<in> set s. decimal_digit c" and lead: "hd s \<noteq> CHR ''0''"
      and bound: "decimal_value s < 2 ^ LONG_BITS pf"
  shows "c_strtoul pf s 0 = (decimal_value s, length s)"
proof -
  from ne dig have h: "decimal_digit (hd s)" by simp
  from ne decimal_not_space [OF h] have ws: "takeWhile isspace s = []"
    by (cases s) simp_all
  from bound have "decimal_from 0 s \<le> 2 ^ LONG_BITS pf - 1"
    by (simp add: decimal_value_def)
  from strtoul_digits_decimal [OF dig this, of 0]
  have dg: "strtoul_digits 10 (2 ^ LONG_BITS pf - 1) s 0 False 0 = (decimal_value s, False, length s)"
    by (simp add: decimal_value_def)
  show ?thesis
    using ne decimal_not_sign [OF h] dg
    by (simp add: c_strtoul_def ws strtoul_radix_decimal [OF ne lead])
qed

lemma ulong_to_int_small: "v < 2 ^ 31 \<Longrightarrow> ulong_to_int v = int v"
  by (simp add: ulong_to_int_def Let_def)

lemma getservbyname_decimal:
  assumes ne: "service \<noteq> []" and dig: "\<forall>c \<in> set service. decimal_digit c"
      and lead: "hd service \<noteq> CHR ''0''"
      and small: "decimal_value service < 2 ^ 31" and long: "32 \<le> LONG_BITS pf"
      and pn: "protoname_of proto = Inr protoname"
      and miss: "getservbyname service protoname = None"
  shows "sock_s_getservbyname pf (c_strtoul pf) getservbyname service proto =
           Inr (int (decimal_value service))"
proof -
  from dig decimal_not_sign have nul: "NUL \<notin> set service" by auto
  have "(2::nat) ^ 31 \<le> 2 ^ LONG_BITS pf"
    using long by (intro power_increasing) simp_all
  with small have "decimal_value service < 2 ^ LONG_BITS pf" by simp
  from c_strtoul_decimal [OF ne dig lead this]
  have parsed: "c_strtoul pf service 0 = (decimal_value service, length service)" .
  have "sock_s_getservbyname pf (c_strtoul pf) getservbyname service proto =
           (if snd (c_strtoul pf service 0) < length service
            then Inl (SocketError (''no such service '' @ service @ ''/'' @ protoname))
            else Inr (ulong_to_int (fst (c_strtoul pf service 0))))"
    using nul pn miss by (rule getservbyname_miss)
  then show ?thesis
    by (simp add: parsed ulong_to_int_small [OF small])
qed

lemma NUM2LONG_port:
  assumes long: "32 \<le> LONG_BITS pf" and range: "0 \<le> port" "port \<le> 65535"
  shows "NUM2LONG pf port = Inr port"
proof -
  have "(2::int) ^ 16 \<le> 2 ^ (LONG_BITS pf - 1)"
    using long by (intro power_increasing) simp_all
  with range show ?thesis by (simp add: NUM2LONG_def)
qed

lemma getservbyport_miss:
  assumes long: "32 \<le> LONG_BITS pf" and pn: "protoname_of proto = Inr protoname"
      and range: "0 \<le> port" "port \<le> 65535"
      and miss: "getservbyport (htons pf (nat port)) protoname = None"
  shows "fst (sock_s_getservbyport pf getservbyport port proto) =
           Inl (SocketError (''no such service for port '' @ show_int port @ ''/'' @ protoname))"
  using pn range miss
  by (simp add: sock_s_getservbyport_def NUM2LONG_port [OF long range] mod_pos_pos_trivial)


lemma protoname_default: "protoname_of None = protoname_of (Some ''tcp'')"
  by (simp add: protoname_of_def StringValueCStr_def)

text \<open>
  C7 (amended). For every service name with no entry in the service database,
  \<open>getservbyname\<close> falls back to \<open>STRTOUL\<close> with base 0 and returns the value it parsed,
  converted to \<open>int\<close>, raising the unknown-service error exactly when the parse stops
  before the end of the name. With the C library's \<open>strtoul\<close>, a name of decimal digits
  with no leading zero and a value below \<open>2^31\<close> gives that number (base 0 reads a
  leading \<open>0\<close> as octal and \<open>0x\<close> as hexadecimal). \<open>getservbyport\<close> has no fallback: for
  every port in range and protocol with no database entry it raises the unknown-service
  error. In both directions a protocol that is not given is \<open>"tcp"\<close>.
\<close>

theorem getservbyname_fallback:
  "(NUL \<notin> set service \<and> protoname_of proto = Inr protoname \<and>
    getservbyname service protoname = None \<longrightarrow>
      sock_s_getservbyname pf STRTOUL getservbyname service proto =
        (if snd (STRTOUL service 0) < length service
         then Inl (SocketError (''no such service '' @ service @ ''/'' @ protoname))
         else Inr (ulong_to_int (fst (STRTOUL service 0))))) \<and>
   (service \<noteq> [] \<and> (\<forall>c \<in> set service. decimal_digit c) \<and> hd service \<noteq> CHR ''0'' \<and>
    decimal_value service < 2 ^ 31 \<and> 32 \<le> LONG_BITS pf \<and>
    protoname_of proto = Inr protoname \<and> getservbyname service protoname = None \<longrightarrow>
      sock_s_getservbyname pf (c_strtoul pf) getservbyname service proto =
        Inr (int (decimal_value service))) \<and>
   (32 \<le> LONG_BITS pf \<and> protoname_of proto = Inr protoname \<and> 0 \<le> port \<and> port \<le> 65535 \<and>
    getservbyport (htons pf (nat port)) protoname = None \<longrightarrow>
      fst (sock_s_getservbyport pf getservbyport port proto) =
        Inl (SocketError (''no such service for port '' @ show_int port @ ''/'' @ protoname))) \<and>
   sock_s_getservbyname pf STRTOUL getservbyname service None =
     sock_s_getservbyname pf STRTOUL getservbyname service (Some ''tcp'') \<and>
   sock_s_getservbyport pf getservbyport port None =
     sock_s_getservbyport pf getservbyport port (Some ''tcp'')"
proof (intro conjI impI)
  assume a: "NUL \<notin> set service \<and> protoname_of proto = Inr protoname \<and>
    getservbyname service protoname = None"
  then have "NUL \<notin> set service" "protoname_of proto = Inr protoname"
    "getservbyname service protoname = None" by simp_all
  then show "sock_s_getservbyname pf STRTOUL getservbyname service proto =
        (if snd (STRTOUL service 0) < length service
         then Inl (SocketError (''no such service '' @ service @ ''/'' @ protoname))
         else Inr (ulong_to_int (fst (STRTOUL service 0))))"
    by (rule getservbyname_miss)
next
  assume "service \<noteq> [] \<and> (\<forall>c \<in> set service. decimal_digit c) \<and> hd service \<noteq> CHR ''0'' \<and>
    decimal_value service < 2 ^ 31 \<and> 32 \<le> LONG_BITS pf \<and>
    protoname_of proto = Inr protoname \<and> getservbyname service protoname = None"
  then have "service \<noteq> []" "\<forall>c \<in> set service. decimal_digit c" "hd service \<noteq> CHR ''0''"
    "decimal_value service < 2 ^ 31" "32 \<le> LONG_BITS pf"
    "protoname_of proto = Inr protoname" "getservbyname service protoname = None"
    by simp_all
  then show "sock_s_getservbyname pf (c_strtoul pf) getservbyname service proto =
        Inr (int (decimal_value service))"
    by (rule getservbyname_decimal)
next
  assume "32 \<le> LONG_BITS pf \<and> protoname_of proto = Inr protoname \<and> 0 \<le> port \<and> port \<le> 65535 \<and>
    getservbyport (htons pf (nat port)) protoname = None"
  then have "32 \<le> LONG_BITS pf" "protoname_of proto = Inr protoname" "0 \<le> port" "port \<le> 65535"
    "getservbyport (htons pf (nat port)) protoname = None"
    by simp_all
  then show "fst (sock_s_getservbyport pf getservbyport port proto) =
        Inl (SocketError (''no such service for port '' @ show_int port @ ''/'' @ protoname))"
    by (rule getservbyport_miss)
next
  show "sock_s_getservbyname pf STRTOUL getservbyname service None =
     sock_s_getservbyname pf STRTOUL getservbyname service (Some ''tcp'')"
    unfolding sock_s_getservbyname_def protoname_default by (rule refl)
next
  show "sock_s_getservbyport pf getservbyport port None =
     sock_s_getservbyport pf getservbyport port (Some ''tcp'')"
    unfolding sock_s_getservbyport_def protoname_default by (rule refl)
qed

theorem getservbyname_fallback_witness:
  "sock_s_getservbyname linux (c_strtoul linux) (\<lambda>n p. None) ''8080'' None = Inr 8080 \<and>
   sock_s_getservbyname linux (c_strtoul linux) (\<lambda>n p. None) ''http'' None =
     Inl (SocketError ''no such service http/tcp'') \<and>
   fst (sock_s_getservbyport linux (\<lambda>n p. None) 80 None) =
     Inl (SocketError ''no such service for port 80/tcp'')"
proof -
  have pn: "protoname_of None = Inr ''tcp''" by (simp add: protoname_of_def)
  have long: "32 \<le> LONG_BITS linux" by (simp add: linux_def)
  have dec: "''8080'' \<noteq> []" "\<forall>c \<in> set ''8080''. decimal_digit c" "hd ''8080'' \<noteq> CHR ''0''"
      "decimal_value ''8080'' = 8080"
    by (simp_all add: decimal_digit_def decimal_value_def)
  have http: "NUL \<notin> set ''http''" "c_strtoul linux ''http'' 0 = (0, 0)"
    by (simp_all add: c_strtoul_def isspace_def digit_value_def)
  have sh: "show_int 80 = ''80''" by (simp add: show_int_def show_nat.simps)
  note th = getservbyname_fallback [of _ None "''tcp''" "\<lambda>n p. None" linux _ 80 "\<lambda>n p. None"]
  from th [of "''8080''" "c_strtoul linux", THEN conjunct2, THEN conjunct1] pn long dec
  have a: "sock_s_getservbyname linux (c_strtoul linux) (\<lambda>n p. None) ''8080'' None = Inr 8080"
    by simp
  from th [of "''http''" "c_strtoul linux", THEN conjunct1] pn http
  have b: "sock_s_getservbyname linux (c_strtoul linux) (\<lambda>n p. None) ''http'' None =
     Inl (SocketError ''no such service http/tcp'')"
    by simp
  from th [of "''http''" "c_strtoul linux", THEN conjunct2, THEN conjunct2, THEN conjunct1]
    pn long sh
  have c: "fst (sock_s_getservbyport linux (\<lambda>n p. None) 80 None) =
     Inl (SocketError ''no such service for port 80/tcp'')"
    by simp
  from a b c show ?thesis by simp
qed

theorem getservbyname_octal_counterexample:
  "list_all decimal_digit ''010'' \<and> decimal_value ''010'' = 10 \<and>
   sock_s_getservbyname linux (c_strtoul linux) (\<lambda>n p. None) ''010'' None = Inr 8"
  by (simp add: sock_s_getservbyname_def StringValueCStr_def protoname_of_def c_strtoul_def
      isspace_def digit_value_def decimal_digit_def decimal_value_def c_at_def
      ulong_to_int_def linux_def)

subsection \<open>The retry of \<open>socketpair\<close>\<close>

























subsection \<open>\<open>connect_nonblock\<close> and \<open>EINPROGRESS\<close>\<close>

text \<open>
  C5 (amended). For every call of \<open>connect_nonblock\<close> on an open socket, the descriptor
  is first marked non-blocking and \<open>connect(2)\<close> is then called, once. When the system
  call fails, with \<open>EINPROGRESS\<close> as with any other \<open>errno\<close>, the system-call error named
  "connect(2)" is raised with that \<open>errno\<close>; when it succeeds, the value it returned (0)
  is the result.
\<close>

theorem connect_nonblock_raises:
  assumes "0 \<le> fd sock"
  shows "snd (sock_connect_nonblock connect sock addr tr) =
           tr @ [Set_nonblock (fd sock), Connect (fd sock) addr] \<and>
         (ret (connect (tr @ [Set_nonblock (fd sock), Connect (fd sock) addr])) < 0 \<longrightarrow>
            fst (sock_connect_nonblock connect sock addr tr) =
              Inl (SystemCallError ''connect(2)''
                     (errno (connect (tr @ [Set_nonblock (fd sock), Connect (fd sock) addr]))))) \<and>
         (0 \<le> ret (connect (tr @ [Set_nonblock (fd sock), Connect (fd sock) addr])) \<longrightarrow>
            fst (sock_connect_nonblock connect sock addr tr) =
              Inr (ret (connect (tr @ [Set_nonblock (fd sock), Connect (fd sock) addr]))))"
  using assms by (simp add: sock_connect_nonblock_def GetOpenFile_def Let_def)

theorem connect_nonblock_raises_witness:
  "0 \<le> fd (init_sock 5) \<and>
   sock_connect_nonblock connect_in_progress (init_sock 5) ''peer'' [] =
     (Inl (SystemCallError ''connect(2)'' 115), [Set_nonblock 5, Connect 5 ''peer'']) \<and>
   sock_connect_nonblock connect_done (init_sock 5) ''peer'' [] =
     (Inr 0, [Set_nonblock 5, Connect 5 ''peer''])"
proof -
  have op: "0 \<le> fd (init_sock 5)" by (simp add: init_sock_def)
  have f: "fd (init_sock 5) = 5" by (simp add: init_sock_def)
  from connect_nonblock_raises [OF op, of connect_in_progress "''peer''" "[]"]
  have a: "sock_connect_nonblock connect_in_progress (init_sock 5) ''peer'' [] =
     (Inl (SystemCallError ''connect(2)'' 115), [Set_nonblock 5, Connect 5 ''peer''])"
    by (simp add: connect_in_progress_def f prod_eq_iff)
  from connect_nonblock_raises [OF op, of connect_done "''peer''" "[]"]
  have b: "sock_connect_nonblock connect_done (init_sock 5) ''peer'' [] =
     (Inr 0, [Set_nonblock 5, Connect 5 ''peer''])"
    by (simp add: connect_done_def f prod_eq_iff)
  from op a b show ?thesis by simp
qed

theorem connect_nonblock_einprogress_counterexample:
  "errno (connect_in_progress [Set_nonblock 5, Connect 5 ''peer'']) = EINPROGRESS linux \<and>
   fst (sock_connect_nonblock connect_in_progress (init_sock 5) ''peer'' []) =
     Inl (SystemCallError ''connect(2)'' (EINPROGRESS linux))"
  by (simp add: sock_connect_nonblock_def GetOpenFile_def init_sock_def connect_in_progress_def
      linux_def)

subsection \<open>The candidates of \<open>getnameinfo\<close>\<close>

lemma candidates_agree:
  "\<forall>c \<in> set rs. gni (ai_addr c) fl = Inr names \<Longrightarrow>
   getnameinfo_candidates gni fl names rs looked = (Inr names, looked @ map ai_addr rs)"
  by (induction rs arbitrary: looked) (auto split: sum.splits prod.splits)

lemma candidates_prefix:
  "\<forall>c \<in> set pre. gni (ai_addr c) fl = Inr names \<Longrightarrow>
   getnameinfo_candidates gni fl names (pre @ rest) looked =
     getnameinfo_candidates gni fl names rest (looked @ map ai_addr pre)"
  by (induction pre arbitrary: looked) (auto split: sum.splits prod.splits)

lemma candidates_differ:
  assumes "\<forall>b \<in> set pre. gni (ai_addr b) fl = Inr names"
      and "gni (ai_addr c) fl = Inr names'" and "names' \<noteq> names"
  shows "getnameinfo_candidates gni fl names (pre @ c # post) looked =
           (Inl (SocketError ''sockaddr resolved to multiple nodename''),
            looked @ map ai_addr (pre @ [c]))"
  using assms by (auto simp: candidates_prefix prod_eq_iff split: prod.splits)

lemma candidates_fail:
  assumes "\<forall>b \<in> set pre. gni (ai_addr b) fl = Inr names"
      and "gni (ai_addr c) fl = Inl e"
  shows "getnameinfo_candidates gni fl names (pre @ c # post) looked =
           (Inl (ResolutionError ''getnameinfo'' e), looked @ map ai_addr (pre @ [c]))"
  using assms by (simp add: candidates_prefix)

lemma call_nameinfo_agree:
  assumes "\<forall>c \<in> set (r # rs). gni (ai_addr c) fl = Inr names"
  shows "call_nameinfo gni fl (ai_addr r) rs = (Inr names, map ai_addr (r # rs))"
  using assms by (simp add: call_nameinfo_def candidates_agree)

lemma call_nameinfo_differ:
  assumes split: "r # rs = pre @ c # post" and ne: "pre \<noteq> []"
      and pre: "\<forall>b \<in> set pre. gni (ai_addr b) fl = Inr names"
      and c: "gni (ai_addr c) fl = Inr names'" "names' \<noteq> names"
  shows "call_nameinfo gni fl (ai_addr r) rs =
           (Inl (SocketError ''sockaddr resolved to multiple nodename''),
            map ai_addr (pre @ [c]))"
proof -
  from split ne obtain pre' where p: "pre = r # pre'" "rs = pre' @ c # post"
    by (cases pre) auto
  with pre have "gni (ai_addr r) fl = Inr names" "\<forall>b \<in> set pre'. gni (ai_addr b) fl = Inr names"
    by simp_all
  then show ?thesis
    using candidates_differ [of pre' gni fl names c names' post "[ai_addr r]"] c p
    by (simp add: call_nameinfo_def)
qed

lemma call_nameinfo_fail:
  assumes split: "r # rs = pre @ c # post"
      and pre: "\<forall>b \<in> set pre. gni (ai_addr b) fl = Inr names"
      and c: "gni (ai_addr c) fl = Inl e"
  shows "call_nameinfo gni fl (ai_addr r) rs =
           (Inl (ResolutionError ''getnameinfo'' e), map ai_addr (pre @ [c]))"
proof (cases pre)
  case Nil
  with split c show ?thesis by (simp add: call_nameinfo_def)
next
  case (Cons a pre')
  with split have p: "a = r" "rs = pre' @ c # post" by simp_all
  with pre Cons have "gni (ai_addr r) fl = Inr names" "\<forall>b \<in> set pre'. gni (ai_addr b) fl = Inr names"
    by simp_all
  then show ?thesis
    using candidates_fail [of pre' gni fl names c e post "[ai_addr r]"] c p Cons
    by (simp add: call_nameinfo_def)
qed

lemma getnameinfo_array_form:
  assumes "getnameinfo_request pf family_arg xs (case flags of None \<Rightarrow> 0 | Some f \<Rightarrow> f) =
             Inr (hptr, pptr, hints)"
      and "rb_getaddrinfo hptr pptr hints = Inr (r, rs)"
  shows "sock_s_getnameinfo pf family_arg SA_LEN rb_getaddrinfo rb_getnameinfo (RArray xs) flags =
           call_nameinfo rb_getnameinfo (case flags of None \<Rightarrow> 0 | Some f \<Rightarrow> f) (ai_addr r) rs"
  using assms by (simp add: sock_s_getnameinfo_def)

lemma sample_request:
  "getnameinfo_request linux (\<lambda>v. Inr 2) [RString ''AF_INET'', Fixnum 80, RString ''127.0.0.1'']
     (case None of None \<Rightarrow> 0 | Some f \<Rightarrow> f) =
   Inr (Some ''127.0.0.1'', Some ''80'', zero_hints \<lparr> ai_socktype := 1, ai_family := 2 \<rparr>)"
  by (simp add: getnameinfo_request_def getnameinfo_array_def getnameinfo_host_def
      getnameinfo_port_def StringValuePtr_def copy_to_buf_def c_string_def show_int_def
      show_nat.simps linux_def zero_hints_def)

lemma sample_candidates:
  "three_candidates (Some ''127.0.0.1'') (Some ''80'') (zero_hints \<lparr> ai_socktype := 1, ai_family := 2 \<rparr>) =
   Inr (zero_hints \<lparr> ai_socktype := 1, ai_family := 2, ai_addr := ''A'' \<rparr>,
        [zero_hints \<lparr> ai_socktype := 1, ai_family := 2, ai_addr := ''B'' \<rparr>,
         zero_hints \<lparr> ai_socktype := 1, ai_family := 2, ai_addr := ''C'' \<rparr>])"
  by (simp add: three_candidates_def)

text \<open>
  C6 (amended). For every array argument of \<open>getnameinfo\<close> that \<open>rb_getaddrinfo\<close> expands
  to a list of candidates, the candidates are looked up with \<open>rb_getnameinfo\<close> in order,
  up to the first one whose lookup fails or whose host and service names differ from
  those of the first candidate. When every candidate gives the same pair of names, every
  candidate was looked up and that pair is returned. When the first candidate that does
  not give that pair gives another pair, the error "sockaddr resolved to multiple
  nodename" is raised; when its lookup fails, the resolver error of \<open>getnameinfo\<close> is
  raised instead. In both cases the candidates after it are not looked up.
\<close>

theorem getnameinfo_candidates_checked:
  assumes req: "getnameinfo_request pf family_arg xs (case flags of None \<Rightarrow> 0 | Some f \<Rightarrow> f) =
                  Inr (hptr, pptr, hints)"
      and res: "rb_getaddrinfo hptr pptr hints = Inr (r, rs)"
  shows
    "((\<forall>c \<in> set (r # rs).
         rb_getnameinfo (ai_addr c) (case flags of None \<Rightarrow> 0 | Some f \<Rightarrow> f) = Inr names) \<longrightarrow>
        sock_s_getnameinfo pf family_arg SA_LEN rb_getaddrinfo rb_getnameinfo (RArray xs) flags =
          (Inr names, map ai_addr (r # rs))) \<and>
     (r # rs = pre @ c # post \<and> pre \<noteq> [] \<and>
      (\<forall>b \<in> set pre.
         rb_getnameinfo (ai_addr b) (case flags of None \<Rightarrow> 0 | Some f \<Rightarrow> f) = Inr names) \<and>
      rb_getnameinfo (ai_addr c) (case flags of None \<Rightarrow> 0 | Some f \<Rightarrow> f) = Inr names' \<and>
      names' \<noteq> names \<longrightarrow>
        sock_s_getnameinfo pf family_arg SA_LEN rb_getaddrinfo rb_getnameinfo (RArray xs) flags =
          (Inl (SocketError ''sockaddr resolved to multiple nodename''),
           map ai_addr (pre @ [c]))) \<and>
     (r # rs = pre @ c # post \<and>
      (\<forall>b \<in> set pre.
         rb_getnameinfo (ai_addr b) (case flags of None \<Rightarrow> 0 | Some f \<Rightarrow> f) = Inr names) \<and>
      rb_getnameinfo (ai_addr c) (case flags of None \<Rightarrow> 0 | Some f \<Rightarrow> f) = Inl e \<longrightarrow>
        sock_s_getnameinfo pf family_arg SA_LEN rb_getaddrinfo rb_getnameinfo (RArray xs) flags =
          (Inl (ResolutionError ''getnameinfo'' e), map ai_addr (pre @ [c])))"
proof -
  have form:
    "sock_s_getnameinfo pf family_arg SA_LEN rb_getaddrinfo rb_getnameinfo (RArray xs) flags =
       call_nameinfo rb_getnameinfo (case flags of None \<Rightarrow> 0 | Some f \<Rightarrow> f) (ai_addr r) rs"
    using req res by (rule getnameinfo_array_form)
  show ?thesis
    unfolding form
    using call_nameinfo_agree [of r rs rb_getnameinfo _ names]
      call_nameinfo_differ [of r rs pre c post rb_getnameinfo _ names names']
      call_nameinfo_fail [of r rs pre c post rb_getnameinfo _ names e]
    by blast
qed

theorem getnameinfo_candidates_checked_witness:
  "sock_s_getnameinfo linux (\<lambda>v. Inr 2) length three_candidates names_agree
     (RArray [RString ''AF_INET'', Fixnum 80, RString ''127.0.0.1'']) None =
     (Inr (''localhost'', ''www''), [''A'', ''B'', ''C'']) \<and>
   sock_s_getnameinfo linux (\<lambda>v. Inr 2) length three_candidates names_differ_on_B
     (RArray [RString ''AF_INET'', Fixnum 80, RString ''127.0.0.1'']) None =
     (Inl (SocketError ''sockaddr resolved to multiple nodename''), [''A'', ''B'']) \<and>
   sock_s_getnameinfo linux (\<lambda>v. Inr 2) length three_candidates names_fail_on_B
     (RArray [RString ''AF_INET'', Fixnum 80, RString ''127.0.0.1'']) None =
     (Inl (ResolutionError ''getnameinfo'' 2), [''A'', ''B''])"
proof -
  note th = getnameinfo_candidates_checked [where rb_getaddrinfo = three_candidates
        and flags = None and SA_LEN = length and names = "(''localhost'', ''www'')"
        and pre = "[zero_hints \<lparr> ai_socktype := 1, ai_family := 2, ai_addr := ''A'' \<rparr>]"
        and c = "zero_hints \<lparr> ai_socktype := 1, ai_family := 2, ai_addr := ''B'' \<rparr>"
        and post = "[zero_hints \<lparr> ai_socktype := 1, ai_family := 2, ai_addr := ''C'' \<rparr>]"
        and names' = "(''elsewhere'', ''www'')" and e = 2,
      OF sample_request sample_candidates]
  from th [where rb_getnameinfo = names_agree, THEN conjunct1]
  have a: "sock_s_getnameinfo linux (\<lambda>v. Inr 2) length three_candidates names_agree
     (RArray [RString ''AF_INET'', Fixnum 80, RString ''127.0.0.1'']) None =
     (Inr (''localhost'', ''www''), [''A'', ''B'', ''C''])"
    by (simp add: names_agree_def)
  from th [where rb_getnameinfo = names_differ_on_B, THEN conjunct2, THEN conjunct1]
  have b: "sock_s_getnameinfo linux (\<lambda>v. Inr 2) length three_candidates names_differ_on_B
     (RArray [RString ''AF_INET'', Fixnum 80, RString ''127.0.0.1'']) None =
     (Inl (SocketError ''sockaddr resolved to multiple nodename''), [''A'', ''B''])"
    by (simp add: names_differ_on_B_def)
  from th [where rb_getnameinfo = names_fail_on_B, THEN conjunct2, THEN conjunct2]
  have c: "sock_s_getnameinfo linux (\<lambda>v. Inr 2) length three_candidates names_fail_on_B
     (RArray [RString ''AF_INET'', Fixnum 80, RString ''127.0.0.1'']) None =
     (Inl (ResolutionError ''getnameinfo'' 2), [''A'', ''B''])"
    by (simp add: names_fail_on_B_def)
  from a b c show ?thesis by simp
qed

theorem getnameinfo_candidates_counterexample:
  "three_candidates (Some ''127.0.0.1'') (Some ''80'') (zero_hints \<lparr> ai_socktype := 1, ai_family := 2 \<rparr>) =
     Inr (zero_hints \<lparr> ai_socktype := 1, ai_family := 2, ai_addr := ''A'' \<rparr>,
          [zero_hints \<lparr> ai_socktype := 1, ai_family := 2, ai_addr := ''B'' \<rparr>,
           zero_hints \<lparr> ai_socktype := 1, ai_family := 2, ai_addr := ''C'' \<rparr>]) \<and>
   names_fail_on_B ''A'' 0 = Inr (''localhost'', ''www'') \<and>
   names_fail_on_B ''B'' 0 = Inl 2 \<and>
   sock_s_getnameinfo linux (\<lambda>v. Inr 2) length three_candidates names_fail_on_B
     (RArray [RString ''AF_INET'', Fixnum 80, RString ''127.0.0.1'']) None =
     (Inl (ResolutionError ''getnameinfo'' 2), [''A'', ''B'']) \<and>
   sock_s_getnameinfo linux (\<lambda>v. Inr 2) length three_candidates names_differ_on_B
     (RArray [RString ''AF_INET'', Fixnum 80, RString ''127.0.0.1'']) None =
     (Inl (SocketError ''sockaddr resolved to multiple nodename''), [''A'', ''B''])"
  using sample_request
  by (simp add: sock_s_getnameinfo_def three_candidates_def call_nameinfo_def
      names_fail_on_B_def names_differ_on_B_def)

end
